theory Spec2Isabelle
  imports Complex_Main
begin

section \<open>Crossover state machine (ATR1/main.py, class BelowToLipsCrossover)\<close>

text \<open>
  The detector keeps its state in a string attribute.  Five strings occur in the source:
  the constructor's \<open>unknown\<close> and the four that \<open>update_state\<close> and \<open>rearm\<close>
  assign.  The logging callback stored by the constructor is never used by the logic.

  Every line is passed as the pair \<open>(cur, prev)\<close> returned by \<open>ShiftedLine.Update\<close>;
  \<open>update_state\<close> reads component 0 only.  Prices and line values are Python floats and
  are only compared here; they are modelled as reals (no NaN, and the shifted value is a
  number, not \<open>None\<close>).
\<close>

datatype cstate = Unknown | BELOW_ALL | ABOVE_lips | MOUTH_SHUT | ReArmed

type_synonym line = "real \<times> real option"

definition BelowToLipsCrossover_init :: cstate where
  "BelowToLipsCrossover_init = Unknown"

text \<open>
  The body of \<open>update_state\<close> is a chain of \<open>if\<close> statements, not \<open>elif\<close>: the third
  one only assigns the state and falls through, so the fourth and fifth test the state it
  has just written (\<open>st1\<close>, \<open>st2\<close> below).
\<close>

definition update_state :: "cstate \<Rightarrow> real \<Rightarrow> line \<Rightarrow> line \<Rightarrow> line \<Rightarrow> bool \<times> cstate" where
  "update_state st price jaw teeth lips =
     (let bellow_all = (price < fst lips \<and> price < fst teeth \<and> price < fst jaw);
          on_the_back = (fst lips < fst teeth \<and> fst teeth < fst jaw);
          open_mouth = (fst lips > fst teeth \<and> fst teeth > fst jaw)
      in if bellow_all \<and> on_the_back then (False, BELOW_ALL)
         else if (st = BELOW_ALL \<or> st = ReArmed) \<and> price > fst lips \<and> open_mouth
           then (True, ABOVE_lips)
         else
           (let st1 = (if st = ABOVE_lips \<and> \<not> open_mouth then MOUTH_SHUT else st)
            in if st1 = MOUTH_SHUT \<and> price > fst lips \<and> open_mouth then (True, ABOVE_lips)
               else
                 (let st2 = (if st1 = MOUTH_SHUT \<and> \<not> open_mouth \<and> price < fst lips
                             then ReArmed else st1)
                  in (False, st2))))"

definition rearm :: "cstate \<Rightarrow> cstate" where
  "rearm st = ReArmed"

text \<open>One bar of input to the detector, and the two configurations the specification speaks of.\<close>

type_synonym cbar = "real \<times> line \<times> line \<times> line"

definition step :: "cstate \<Rightarrow> cbar \<Rightarrow> bool \<times> cstate" where
  "step st b = (case b of (price, jaw, teeth, lips) \<Rightarrow> update_state st price jaw teeth lips)"

definition bullish :: "cbar \<Rightarrow> bool" where
  "bullish b = (case b of (price, jaw, teeth, lips) \<Rightarrow>
     price > fst lips \<and> fst lips > fst teeth \<and> fst teeth > fst jaw)"

definition bearish_below :: "cbar \<Rightarrow> bool" where
  "bearish_below b = (case b of (price, jaw, teeth, lips) \<Rightarrow>
     (price < fst lips \<and> price < fst teeth \<and> price < fst jaw)
     \<and> (fst lips < fst teeth \<and> fst teeth < fst jaw))"

text \<open>Feeding a sequence of bars: the flags emitted, and the states entered.\<close>

fun emitted :: "cstate \<Rightarrow> cbar list \<Rightarrow> bool list" where
  "emitted st [] = []"
| "emitted st (b # bs) = fst (step st b) # emitted (snd (step st b)) bs"

fun visited :: "cstate \<Rightarrow> cbar list \<Rightarrow> cstate list" where
  "visited st [] = []"
| "visited st (b # bs) = snd (step st b) # visited (snd (step st b)) bs"


section \<open>Smoothed moving average and shifted line (ATR1/main.py)\<close>

datatype error = ValueError | IndexError | ZeroDivisionError | TypeError

record SMMAIndicator =
  length_smma :: int
  current :: "real option"
  prev :: "real option"
  count :: int

definition SMMAIndicator_init :: "int \<Rightarrow> SMMAIndicator" where
  "SMMAIndicator_init len = \<lparr>length_smma = len, current = None, prev = None, count = 0\<rparr>"

text \<open>
  \<open>Update\<close> divides by the period; on Python floats a zero period raises
  \<open>ZeroDivisionError\<close> from the second update on (the first one only stores the price).
\<close>

definition SMMA_Update :: "SMMAIndicator \<Rightarrow> real \<Rightarrow> error + (SMMAIndicator \<times> real \<times> real option)" where
  "SMMA_Update s price =
     (case current s of
        None \<Rightarrow> Inr (s\<lparr>current := Some price, count := count s + 1\<rparr>, price, prev s)
      | Some c \<Rightarrow>
          if length_smma s = 0 then Inl ZeroDivisionError
          else (let c' = (c * (real_of_int (length_smma s) - 1) + price) / real_of_int (length_smma s)
                in Inr (s\<lparr>prev := Some c, current := Some c', count := count s + 1\<rparr>, c', Some c)))"

definition SMMA_IsReady :: "SMMAIndicator \<Rightarrow> bool" where
  "SMMA_IsReady s = (count s \<ge> length_smma s)"

text \<open>
  \<open>ShiftedLine\<close> owns a \<open>deque(maxlen=shift+1)\<close>.  The deque constructor raises
  \<open>ValueError\<close> for a negative \<open>maxlen\<close>; a full deque drops its oldest element on
  \<open>append\<close>, and a deque with \<open>maxlen = 0\<close> stays empty.
\<close>

record ShiftedLine =
  smma :: SMMAIndicator
  buf :: "real list"
  maxlen :: nat
  shift :: int

definition ShiftedLine_init :: "int \<Rightarrow> int \<Rightarrow> error + ShiftedLine" where
  "ShiftedLine_init period sh =
     (if sh + 1 < 0 then Inl ValueError
      else Inr \<lparr>smma = SMMAIndicator_init period, buf = [], maxlen = nat (sh + 1), shift = sh\<rparr>)"

definition deque_append :: "nat \<Rightarrow> real list \<Rightarrow> real \<Rightarrow> real list" where
  "deque_append ml b x =
     (if ml = 0 then b else if length b = ml then tl b @ [x] else b @ [x])"

definition ShiftedLine_Update :: "ShiftedLine \<Rightarrow> real \<Rightarrow> error + (ShiftedLine \<times> real option \<times> real option)" where
  "ShiftedLine_Update l price =
     (case SMMA_Update (smma l) price of
        Inl e \<Rightarrow> Inl e
      | Inr (sm, cur, pv) \<Rightarrow>
          (let b = deque_append (maxlen l) (buf l) cur;
               l' = l\<lparr>smma := sm, buf := b\<rparr>
           in if length b = maxlen l
              then (case b of [] \<Rightarrow> Inl IndexError | x # _ \<Rightarrow> Inr (l', Some x, pv))
              else Inr (l', None, pv)))"

definition ShiftedLine_IsReady :: "ShiftedLine \<Rightarrow> bool" where
  "ShiftedLine_IsReady l = (SMMA_IsReady (smma l) \<and> length (buf l) = maxlen l)"

text \<open>Feeding a sequence of prices; the first exception ends the run.\<close>

fun feed :: "ShiftedLine \<Rightarrow> real list \<Rightarrow> error + ShiftedLine" where
  "feed l [] = Inr l"
| "feed l (x # xs) =
     (case ShiftedLine_Update l x of Inl e \<Rightarrow> Inl e | Inr (l', _, _) \<Rightarrow> feed l' xs)"

definition ready_after :: "int \<Rightarrow> int \<Rightarrow> real list \<Rightarrow> error + bool" where
  "ready_after period sh xs =
     (case ShiftedLine_init period sh of
        Inl e \<Rightarrow> Inl e
      | Inr l \<Rightarrow> (case feed l xs of Inl e \<Rightarrow> Inl e | Inr l' \<Rightarrow> Inr (ShiftedLine_IsReady l')))"


section \<open>The trading engines (class AlligatorStopLossQC)\<close>

text \<open>
  Three variants of the orchestrator are modelled: \<open>Williams2/main.py\<close> (suffix \<open>W2\<close>),
  \<open>Clone of Williams2/main.py\<close> (its \<open>check_exit\<close>, suffix \<open>Clone\<close>) and
  \<open>Williams Alligator with ATR Stop Loss/main.py\<close> (suffix \<open>ASL\<close>).  They are one class
  copied from file to file, so one record holds the instance attributes the decision logic
  reads or writes; a variant leaves the attributes it does not have untouched.

  What the platform owns is made explicit: \<open>portfolio.invested\<close> is the field
  \<open>invested\<close>, set by \<open>set_holdings\<close> and cleared by \<open>liquidate\<close>; every order placed is
  appended to \<open>orders\<close> with the rule that fired.  Plotting and logging are left out.
  Prices are reals.
\<close>

datatype reason =
    Startup_trending    \<comment> \<open>"startup trending condition"\<close>
  | Cross_filter        \<comment> \<open>"cross + filter"\<close>
  | Lips_cross_up       \<comment> \<open>"Lips cross up"\<close>
  | Trailing_stop       \<comment> \<open>"trailing stop ..."\<close>
  | Hard_stop           \<comment> \<open>"hard stop ..."\<close>
  | Lips_below_teeth    \<comment> \<open>"lips crossed below teeth (buffer)", "Lips crossed below Teeth"\<close>
  | Lips_below_jaw      \<comment> \<open>"lips crossed below jaw"\<close>
  | ATR_stop            \<comment> \<open>"ATR stop ..."\<close>
  | Lips_trending_down  \<comment> \<open>"lips are trending down and distance ... smaller then atr"\<close>
  | Price_below_lips    \<comment> \<open>"price at close < lips of alligator lines"\<close>
  | Price_below_teeth   \<comment> \<open>"price at close < teeth of alligator lines"\<close>
  | Mouth_closing       \<comment> \<open>"... mouth closing, lips crossed teeth line"\<close>

datatype order = BUY reason | SELL reason

text \<open>
  The \<open>SMMAIndicator\<close> class of these files has no \<open>prev\<close> attribute and its \<open>Update\<close>
  returns the current value only.  Its period is one of the literals of \<open>Initialize\<close>
  (20, 12, 8 or 13, 8, 5), never zero.
\<close>

record SMMA =
  slength :: int
  scurrent :: "real option"
  scount :: int

definition SMMA_init :: "int \<Rightarrow> SMMA" where
  "SMMA_init len = \<lparr>slength = len, scurrent = None, scount = 0\<rparr>"

definition SMMA_next :: "SMMA \<Rightarrow> real \<Rightarrow> real" where
  "SMMA_next m price =
     (case scurrent m of
        None \<Rightarrow> price
      | Some c \<Rightarrow> (c * (real_of_int (slength m) - 1) + price) / real_of_int (slength m))"

definition SMMA_Upd :: "SMMA \<Rightarrow> real \<Rightarrow> SMMA" where
  "SMMA_Upd m price = m\<lparr>scurrent := Some (SMMA_next m price), scount := scount m + 1\<rparr>"

definition SMMA_Ready :: "SMMA \<Rightarrow> bool" where
  "SMMA_Ready m = (scount m \<ge> slength m)"

record params =
  jawLength :: int
  teethLength :: int
  lipsLength :: int
  cooldown_days :: int
  use_entry_price_filter :: bool
  price_filter_lookback :: int
  price_filter_k :: real
  max_peak_days :: int
  lips_price_gap_pct :: real
  stopLossPct :: real
  trailingStopPct :: real
  atr_multiplier :: real

record algo =
  hl2s :: "real list"
  jaw_ind :: SMMA
  teeth_ind :: SMMA
  lips_ind :: SMMA
  jaw_prev :: "real option"
  teeth_prev :: "real option"
  lips_prev :: "real option"
  entryPrice :: "real option"
  highestPrice :: "real option"
  startup_check :: bool
  wait_peak_check :: bool
  peak_day_hl2 :: "real option"
  peak_check_days :: int
  cooldown_days_remaining :: int
  invested :: bool
  orders :: "order list"

record bar =
  High :: real
  Low :: real
  Close :: real

text \<open>
  What the decision logic receives with a bar.  \<open>trend_ok\<close> stands for the value of
  \<open>compute_trend_flag()\<close> / \<open>is_trending_ema(...)\<close> on this bar: a function of the price
  and line histories (which start with the platform's warm-up history) that reads and
  writes none of the attributes above, and that can raise.  The handlers of this section
  take it as an input, so that what is proved of them holds whatever the gate computes;
  the complete handlers of the subsection on the trend gate compute it from the
  histories, as the source does, and hand it over.  \<open>atr_ready\<close> and \<open>atr_value\<close> are
  the platform's ATR indicator.
\<close>

record feed_in =
  the_bar :: bar
  trend_ok :: bool
  atr_ready :: bool
  atr_value :: real

subsection \<open>Williams2: actions\<close>

definition buy_W2 :: "params \<Rightarrow> algo \<Rightarrow> bar \<Rightarrow> reason \<Rightarrow> algo" where
  "buy_W2 p s b r =
     s\<lparr>invested := True, entryPrice := Some (Close b), highestPrice := Some (Close b),
       cooldown_days_remaining := cooldown_days p, orders := orders s @ [BUY r]\<rparr>"

definition sell_W2 :: "algo \<Rightarrow> bar \<Rightarrow> reason \<Rightarrow> algo" where
  "sell_W2 s b r =
     s\<lparr>invested := False, entryPrice := None, highestPrice := None,
       orders := orders s @ [SELL r]\<rparr>"

subsection \<open>Williams2: indicators\<close>

definition min_len :: "params \<Rightarrow> int" where
  "min_len p = max (max (jawLength p) (teethLength p)) (lipsLength p) + 1"

definition update_indicators_W2 ::
    "params \<Rightarrow> algo \<Rightarrow> bar \<Rightarrow> algo \<times> (real \<times> real \<times> real \<times> real) option" where
  "update_indicators_W2 p s b =
     (let hl2 = (High b + Low b) / 2;
          s1 = s\<lparr>hl2s := hl2s s @ [hl2]\<rparr>
      in if int (length (hl2s s1)) < min_len p then (s1, None)
         else
           (let j = SMMA_Upd (jaw_ind s1) hl2;
                t = SMMA_Upd (teeth_ind s1) hl2;
                l = SMMA_Upd (lips_ind s1) hl2
            in (s1\<lparr>jaw_ind := j, teeth_ind := t, lips_ind := l\<rparr>,
                Some (hl2, SMMA_next (jaw_ind s1) hl2, SMMA_next (teeth_ind s1) hl2,
                      SMMA_next (lips_ind s1) hl2))))"

subsection \<open>Williams2: the z-score entry filter\<close>

text \<open>
  \<open>np.mean\<close> and \<open>np.std\<close> (population standard deviation) over the reals.  On an empty
  window numpy returns NaN, with which every comparison is false; the model makes that
  case explicit instead of dividing by zero.  \<open>hl2s[-lb:]\<close> is the whole list for
  \<open>lb = 0\<close> and drops \<open>-lb\<close> elements for a negative \<open>lb\<close>.
\<close>

definition np_mean :: "real list \<Rightarrow> real" where
  "np_mean xs = sum_list xs / real (length xs)"

definition np_std :: "real list \<Rightarrow> real" where
  "np_std xs = sqrt (np_mean (map (\<lambda>x. (x - np_mean xs)\<^sup>2) xs))"

definition slice_last :: "int \<Rightarrow> 'a list \<Rightarrow> 'a list" where
  "slice_last lb xs =
     (if lb > 0 then drop (length xs - nat lb) xs else drop (nat (- lb)) xs)"

definition zscore :: "real list \<Rightarrow> real \<Rightarrow> real" where
  "zscore window x = (x - np_mean window) / np_std window"

definition peak_reset :: "algo \<Rightarrow> algo" where
  "peak_reset s = s\<lparr>wait_peak_check := False, peak_day_hl2 := None, peak_check_days := 0\<rparr>"

definition entry_price_filter :: "params \<Rightarrow> algo \<Rightarrow> real \<Rightarrow> bool \<times> algo" where
  "entry_price_filter p s hl2 =
     (if \<not> use_entry_price_filter p then (True, s)
      else if int (length (hl2s s)) < price_filter_lookback p then (False, s)
      else
        (let window = slice_last (price_filter_lookback p) (hl2s s);
             nan = (window = []);
             std = np_std window
         in if \<not> nan \<and> std = 0 then (True, s)
            else
              (let z = zscore window hl2;
                   cheap = (\<not> nan \<and> z < - price_filter_k p);
                   expensive = (\<not> nan \<and> z > price_filter_k p)
               in if cheap then (True, s)
                  else if expensive \<and> \<not> wait_peak_check s
                    then (False, s\<lparr>wait_peak_check := True, peak_day_hl2 := Some hl2,
                                   peak_check_days := 0\<rparr>)
                  else if wait_peak_check s then
                    (let s1 = s\<lparr>peak_check_days := peak_check_days s + 1\<rparr>
                     in if (case peak_day_hl2 s1 of None \<Rightarrow> False | Some r \<Rightarrow> hl2 < r)
                          then (False, peak_reset s1)
                        else if peak_check_days s1 \<ge> max_peak_days p
                          then (True, peak_reset s1)
                        else (False, s1))
                  else (True, s))))"

definition lips_price_gap_ok :: "params \<Rightarrow> real \<Rightarrow> real \<Rightarrow> bool" where
  "lips_price_gap_ok p lips_val hl2 =
     (if lips_price_gap_pct p < 0 then True
      else \<not> (lips_val * (1 + (1 / 100) * lips_price_gap_pct p) < hl2))"

subsection \<open>Williams2: entry and exit\<close>

text \<open>
  \<open>check_entry\<close>: the line that would disarm the startup rule is commented out in the
  source, and the startup branch does not return, so the cross entry is evaluated on the
  same bar, after the startup buy.  The right operand of \<open>and\<close> is evaluated only when the
  left one holds, so the filter (which has effects) runs only when the gap test passes.
\<close>

definition cross_up :: "real option \<Rightarrow> real option \<Rightarrow> real \<Rightarrow> real \<Rightarrow> bool" where
  "cross_up lp tp lips teeth =
     (case lp of None \<Rightarrow> False
      | Some a \<Rightarrow> (case tp of None \<Rightarrow> False | Some b \<Rightarrow> a \<le> b \<and> lips > teeth))"

definition check_entry_W2 ::
    "params \<Rightarrow> algo \<Rightarrow> bar \<Rightarrow> bool \<Rightarrow> real \<Rightarrow> real \<Rightarrow> real \<Rightarrow> real \<Rightarrow> algo" where
  "check_entry_W2 p s b trend hl2 jaw teeth lips =
     (if \<not> trend then s
      else
        (let s1 = (if startup_check s
                   then (if \<not> invested s
                         then (buy_W2 p s b Startup_trending)\<lparr>wait_peak_check := False\<rparr>
                         else s)
                   else s)
         in if cross_up (lips_prev s1) (teeth_prev s1) lips teeth
            then (if lips_price_gap_ok p lips hl2
                  then (case entry_price_filter p s1 hl2 of
                          (ok, s2) \<Rightarrow>
                            if ok then (buy_W2 p s2 b Cross_filter)\<lparr>wait_peak_check := False\<rparr>
                            else s2)
                  else s1)
            else s1))"

definition cross_down :: "real option \<Rightarrow> real option \<Rightarrow> real \<Rightarrow> real \<Rightarrow> bool" where
  "cross_down ap bp a b =
     (case ap of None \<Rightarrow> False
      | Some x \<Rightarrow> (case bp of None \<Rightarrow> False | Some y \<Rightarrow> x \<ge> y \<and> a < b))"

definition new_high :: "real option \<Rightarrow> real \<Rightarrow> real" where
  "new_high h price = (case h of None \<Rightarrow> price | Some x \<Rightarrow> if price > x then price else x)"

definition check_exit_W2 :: "params \<Rightarrow> algo \<Rightarrow> bar \<Rightarrow> real \<Rightarrow> real \<Rightarrow> real \<Rightarrow> algo" where
  "check_exit_W2 p s b jaw teeth lips =
     (case entryPrice s of
        None \<Rightarrow> s
      | Some e \<Rightarrow>
          (let price = Close b;
               h = new_high (highestPrice s) price;
               s1 = s\<lparr>highestPrice := Some h\<rparr>
           in if price \<le> h * (1 - trailingStopPct p)
                then (sell_W2 s1 b Trailing_stop)\<lparr>wait_peak_check := True\<rparr>
              else if price \<le> e * (1 - stopLossPct p)
                then (sell_W2 s1 b Hard_stop)\<lparr>wait_peak_check := True\<rparr>
              else if cross_down (lips_prev s1) (teeth_prev s1) ((105 / 100) * lips) teeth
                then (sell_W2 s1 b Lips_below_teeth)\<lparr>wait_peak_check := True\<rparr>
              else if cross_down (lips_prev s1) (jaw_prev s1) lips jaw
                then (sell_W2 s1 b Lips_below_jaw)\<lparr>wait_peak_check := True\<rparr>
              else s1))"

subsection \<open>Williams2: the bar handler\<close>

text \<open>
  \<open>OnData\<close> after its two guards on the data slice (a slice without the symbol is not a
  processed bar).  While the price history is shorter than \<open>min_len\<close> the handler returns
  right after \<open>update_indicators\<close>.  The cooldown counter is decremented at the end of every
  bar that reaches the end of the handler, the bar of the BUY included.
\<close>

definition trade_W2 :: "params \<Rightarrow> algo \<Rightarrow> feed_in \<Rightarrow> real \<Rightarrow> real \<Rightarrow> real \<Rightarrow> real \<Rightarrow> algo" where
  "trade_W2 p s i hl2 jaw teeth lips =
     (if \<not> invested s then check_entry_W2 p s (the_bar i) (trend_ok i) hl2 jaw teeth lips
      else if cooldown_days_remaining s = 0 then check_exit_W2 p s (the_bar i) jaw teeth lips
      else s)"

definition finish_W2 :: "algo \<Rightarrow> real \<Rightarrow> real \<Rightarrow> real \<Rightarrow> algo" where
  "finish_W2 s jaw teeth lips =
     (let s1 = s\<lparr>jaw_prev := Some jaw, teeth_prev := Some teeth, lips_prev := Some lips\<rparr>
      in if cooldown_days_remaining s1 > 0
         then s1\<lparr>cooldown_days_remaining := cooldown_days_remaining s1 - 1\<rparr>
         else s1)"

definition OnData_W2 :: "params \<Rightarrow> algo \<Rightarrow> feed_in \<Rightarrow> algo" where
  "OnData_W2 p s i =
     (case update_indicators_W2 p s (the_bar i) of
        (s1, None) \<Rightarrow> s1
      | (s1, Some (hl2, jaw, teeth, lips)) \<Rightarrow>
          finish_W2 (trade_W2 p s1 i hl2 jaw teeth lips) jaw teeth lips)"

text \<open>
  \<open>Initialize\<close>: the three lines are warmed up with the \<open>hl2\<close> of the platform's history
  bars; \<open>hl2s\<close> starts empty and the previous line values start as the lines' current ones.
\<close>

definition Initialize_W2 :: "params \<Rightarrow> real list \<Rightarrow> algo" where
  "Initialize_W2 p history =
     (let j = foldl SMMA_Upd (SMMA_init (jawLength p)) history;
          t = foldl SMMA_Upd (SMMA_init (teethLength p)) history;
          l = foldl SMMA_Upd (SMMA_init (lipsLength p)) history
      in \<lparr>hl2s = [], jaw_ind = j, teeth_ind = t, lips_ind = l,
          jaw_prev = scurrent j, teeth_prev = scurrent t, lips_prev = scurrent l,
          entryPrice = None, highestPrice = None, startup_check = True,
          wait_peak_check = False, peak_day_hl2 = None, peak_check_days = 0,
          cooldown_days_remaining = 0, invested = False, orders = []\<rparr>)"

definition run_W2 :: "params \<Rightarrow> algo \<Rightarrow> feed_in list \<Rightarrow> algo" where
  "run_W2 p s is = foldl (OnData_W2 p) s is"

text \<open>The parameter values of \<open>Williams2/main.py\<close>.\<close>

definition params_W2 :: params where
  "params_W2 = \<lparr>jawLength = 20, teethLength = 12, lipsLength = 8, cooldown_days = 3,
     use_entry_price_filter = True, price_filter_lookback = 20, price_filter_k = 3 / 2,
     max_peak_days = 2, lips_price_gap_pct = 6, stopLossPct = 3 / 1000,
     trailingStopPct = 3 / 1000, atr_multiplier = 0\<rparr>"

subsection \<open>Clone of Williams2: exit\<close>


subsection \<open>Williams Alligator with ATR Stop Loss\<close>

text \<open>
  In this variant \<open>buy\<close> tests \<open>portfolio.invested\<close> itself, \<open>sell\<close> also starts the
  cooldown, the startup rule disarms itself, and \<open>OnData\<close> decrements the cooldown counter
  in the branch taken when no position is open.
\<close>

definition buy_ASL :: "params \<Rightarrow> algo \<Rightarrow> bar \<Rightarrow> reason \<Rightarrow> algo" where
  "buy_ASL p s b r =
     (if \<not> invested s
      then s\<lparr>invested := True, entryPrice := Some (Close b), highestPrice := Some (Close b),
             cooldown_days_remaining := cooldown_days p, orders := orders s @ [BUY r]\<rparr>
      else s)"

definition sell_ASL :: "params \<Rightarrow> algo \<Rightarrow> bar \<Rightarrow> reason \<Rightarrow> algo" where
  "sell_ASL p s b r =
     s\<lparr>invested := False, entryPrice := None, highestPrice := None,
       cooldown_days_remaining := cooldown_days p, orders := orders s @ [SELL r]\<rparr>"

definition check_entry_ASL :: "params \<Rightarrow> algo \<Rightarrow> bar \<Rightarrow> bool \<Rightarrow> real \<Rightarrow> real \<Rightarrow> real \<Rightarrow> algo" where
  "check_entry_ASL p s b trend jaw teeth lips =
     (if length (hl2s s) < 20 then s
      else if \<not> trend then s
      else if startup_check s
        then (if \<not> invested s
              then (buy_ASL p s b Startup_trending)\<lparr>startup_check := False\<rparr>
              else s)
      else if cross_up (lips_prev s) (teeth_prev s) lips teeth
        then buy_ASL p s b Lips_cross_up
      else s)"

definition check_exit_ASL :: "params \<Rightarrow> algo \<Rightarrow> feed_in \<Rightarrow> real \<Rightarrow> real \<Rightarrow> real \<Rightarrow> algo" where
  "check_exit_ASL p s i jaw teeth lips =
     (case entryPrice s of
        None \<Rightarrow> s
      | Some e \<Rightarrow>
          (let price = Close (the_bar i)
           in if price \<le> e - atr_multiplier p * atr_value i
                then sell_ASL p s (the_bar i) ATR_stop
              else if cross_down (lips_prev s) (teeth_prev s) lips teeth
                then sell_ASL p s (the_bar i) Lips_below_teeth
              else if cross_down (lips_prev s) (jaw_prev s) lips jaw
                then sell_ASL p s (the_bar i) Lips_below_jaw
              else s))"

definition OnData_ASL :: "params \<Rightarrow> algo \<Rightarrow> feed_in \<Rightarrow> algo" where
  "OnData_ASL p s i =
     (if \<not> SMMA_Ready (jaw_ind s) \<or> \<not> SMMA_Ready (teeth_ind s) \<or> \<not> SMMA_Ready (lips_ind s)
         \<or> \<not> atr_ready i
      then s
      else
        (let hl2 = (High (the_bar i) + Low (the_bar i)) / 2;
             jaw = SMMA_next (jaw_ind s) hl2;
             teeth = SMMA_next (teeth_ind s) hl2;
             lips = SMMA_next (lips_ind s) hl2;
             s1 = s\<lparr>jaw_ind := SMMA_Upd (jaw_ind s) hl2, teeth_ind := SMMA_Upd (teeth_ind s) hl2,
                    lips_ind := SMMA_Upd (lips_ind s) hl2, hl2s := hl2s s @ [hl2]\<rparr>;
             s2 = (if invested s1
                   then (if cooldown_days_remaining s1 = 0
                         then check_exit_ASL p s1 i jaw teeth lips else s1)
                   else (if cooldown_days_remaining s1 > 0
                         then s1\<lparr>cooldown_days_remaining := cooldown_days_remaining s1 - 1\<rparr>
                         else check_entry_ASL p s1 (the_bar i) (trend_ok i) jaw teeth lips))
         in s2\<lparr>jaw_prev := Some jaw, teeth_prev := Some teeth, lips_prev := Some lips\<rparr>))"

text \<open>
  \<open>Initialize\<close> returns before the warm-up when the platform has no history; the lines then
  never become ready.  Otherwise the warm-up also fills the price history, and the previous
  line values start as the lines' current ones.
\<close>

definition Initialize_ASL :: "params \<Rightarrow> real list \<Rightarrow> algo" where
  "Initialize_ASL p history =
     \<lparr>hl2s = history,
      jaw_ind = foldl SMMA_Upd (SMMA_init (jawLength p)) history,
      teeth_ind = foldl SMMA_Upd (SMMA_init (teethLength p)) history,
      lips_ind = foldl SMMA_Upd (SMMA_init (lipsLength p)) history,
      jaw_prev = scurrent (foldl SMMA_Upd (SMMA_init (jawLength p)) history),
      teeth_prev = scurrent (foldl SMMA_Upd (SMMA_init (teethLength p)) history),
      lips_prev = scurrent (foldl SMMA_Upd (SMMA_init (lipsLength p)) history),
      entryPrice = None, highestPrice = None, startup_check = True,
      wait_peak_check = False, peak_day_hl2 = None, peak_check_days = 0,
      cooldown_days_remaining = 0, invested = False, orders = []\<rparr>"

definition run_ASL :: "params \<Rightarrow> algo \<Rightarrow> feed_in list \<Rightarrow> algo" where
  "run_ASL p s is = foldl (OnData_ASL p) s is"

definition params_ASL :: params where
  "params_ASL = \<lparr>jawLength = 13, teethLength = 8, lipsLength = 5, cooldown_days = 1,
     use_entry_price_filter = False, price_filter_lookback = 0, price_filter_k = 0,
     max_peak_days = 0, lips_price_gap_pct = 0, stopLossPct = 0,
     trailingStopPct = 0, atr_multiplier = 2 / 10\<rparr>"


subsection \<open>ATR1: exit\<close>







subsection \<open>The slope trend gate and the complete handlers\<close>

text \<open>
  \<open>is_trending_ema\<close> is the same function in Williams2 and in the ATR-stop variant.  The
  Williams2 \<open>Initialize\<close> puts the indicator objects themselves at the head of
  \<open>lips_list\<close> and \<open>teeth_list\<close>, before the warm-up values; arithmetic on such an entry
  raises \<open>TypeError\<close>, so the entries of these lists are numbers or that object.

  The exponential averages are computed in Python floats and compared as numpy floats:
  the relative slope divides by the first average without raising, and a zero divisor
  gives an infinity of the numerator's sign, or NaN.
\<close>

datatype entry = Num real | Obj

fun ema_from :: "real \<Rightarrow> real \<Rightarrow> real list \<Rightarrow> real list" where
  "ema_from alpha out_last [] = []"
| "ema_from alpha out_last (price # arr) =
     (let y = alpha * price + (1 - alpha) * out_last in y # ema_from alpha y arr)"

definition ema :: "real list \<Rightarrow> int \<Rightarrow> error + real list" where
  "ema arr period =
     (case arr of
        [] \<Rightarrow> Inl IndexError
      | a # rest \<Rightarrow> Inr (a # ema_from (2 / (real_of_int period + 1)) a rest))"

definition numbers :: "entry list \<Rightarrow> error + real list" where
  "numbers es =
     (if list_ex (\<lambda>e. e = Obj) es then Inl TypeError
      else Inr (map (\<lambda>e. case e of Num x \<Rightarrow> x | Obj \<Rightarrow> 0) es))"

definition slope_above :: "real \<Rightarrow> real \<Rightarrow> real \<Rightarrow> bool" where
  "slope_above s0 s_last threshold =
     (if s0 = 0 then s_last > 0 else (s_last - s0) / s0 > threshold)"

definition ema_with_slope :: "entry list \<Rightarrow> int \<Rightarrow> int \<Rightarrow> real \<Rightarrow> error + bool" where
  "ema_with_slope ts short long threshold =
     (case numbers (slice_last long ts) of
        Inl e \<Rightarrow> Inl e
      | Inr w \<Rightarrow>
          (case ema w short of
             Inl e \<Rightarrow> Inl e
           | Inr s \<Rightarrow>
               (case ema w long of
                  Inl e \<Rightarrow> Inl e
                | Inr l \<Rightarrow> Inr (last s > last l \<and> slope_above (hd s) (last s) threshold))))"

definition is_trending_ema :: "entry list \<Rightarrow> entry list \<Rightarrow> entry list \<Rightarrow> error + bool" where
  "is_trending_ema ts1 ts2 ts3 =
     (if length ts1 < 20 then Inr False
      else
        (case ema_with_slope ts1 5 20 (1 / 100) of
           Inl e \<Rightarrow> Inl e
         | Inr t1 \<Rightarrow>
             (case ema_with_slope ts2 5 20 (1 / 100) of
                Inl e \<Rightarrow> Inl e
              | Inr t2 \<Rightarrow>
                  (case ema_with_slope ts3 5 20 (1 / 100) of
                     Inl e \<Rightarrow> Inl e
                   | Inr t3 \<Rightarrow> Inr (t1 \<and> t2 \<and> t3)))))"

text \<open>
  The complete Williams2 instance: the decision attributes, and the two line histories
  that only the trend gate reads.  \<open>compute_trend_flag\<close> (the Hurst gate is switched off
  by a literal in \<open>Initialize\<close>) is called by \<open>check_entry\<close>, that is on the processed bars
  that find no position open; its value is handed to the handler above.
\<close>

record inst =
  core :: algo
  lips_hist :: "entry list"
  teeth_hist :: "entry list"

fun SMMA_trace :: "SMMA \<Rightarrow> real list \<Rightarrow> real list" where
  "SMMA_trace m [] = []"
| "SMMA_trace m (x # xs) = SMMA_next m x # SMMA_trace (SMMA_Upd m x) xs"

definition Initialize_full_W2 :: "params \<Rightarrow> real list \<Rightarrow> inst" where
  "Initialize_full_W2 p history =
     \<lparr>core = Initialize_W2 p history,
      lips_hist = Obj # map Num (SMMA_trace (SMMA_init (lipsLength p)) history),
      teeth_hist = Obj # map Num (SMMA_trace (SMMA_init (teethLength p)) history)\<rparr>"

definition compute_trend_flag_W2 :: "real list \<Rightarrow> entry list \<Rightarrow> entry list \<Rightarrow> error + bool" where
  "compute_trend_flag_W2 hs ls ts =
     is_trending_ema (map Num (slice_last 20 hs)) (slice_last 20 ls) (slice_last 20 ts)"

definition feed_of :: "bar \<Rightarrow> bool \<Rightarrow> feed_in" where
  "feed_of b tr = \<lparr>the_bar = b, trend_ok = tr, atr_ready = False, atr_value = 0\<rparr>"

definition OnData_full_W2 :: "params \<Rightarrow> inst \<Rightarrow> bar \<Rightarrow> error + inst" where
  "OnData_full_W2 p s b =
     (case update_indicators_W2 p (core s) b of
        (s1, None) \<Rightarrow> Inr (s\<lparr>core := s1\<rparr>)
      | (s1, Some (hl2, jaw, teeth, lips)) \<Rightarrow>
          (let ls = lips_hist s @ [Num lips];
               ts = teeth_hist s @ [Num teeth]
           in if \<not> invested s1
              then (case compute_trend_flag_W2 (hl2s s1) ls ts of
                      Inl e \<Rightarrow> Inl e
                    | Inr tr \<Rightarrow>
                        Inr \<lparr>core = OnData_W2 p (core s) (feed_of b tr),
                             lips_hist = ls, teeth_hist = ts\<rparr>)
              else Inr \<lparr>core = OnData_W2 p (core s) (feed_of b False),
                        lips_hist = ls, teeth_hist = ts\<rparr>))"

fun run_full_W2 :: "params \<Rightarrow> inst \<Rightarrow> bar list \<Rightarrow> error + inst" where
  "run_full_W2 p s [] = Inr s"
| "run_full_W2 p s (b # bs) =
     (case OnData_full_W2 p s b of Inl e \<Rightarrow> Inl e | Inr s' \<Rightarrow> run_full_W2 p s' bs)"

text \<open>
  The complete instance of the ATR-stop variant.  Its histories hold the warm-up values
  only, and the trend gate is computed in \<open>check_entry\<close> after the test on the length of
  the price history.
\<close>

definition Initialize_full_ASL :: "params \<Rightarrow> real list \<Rightarrow> inst" where
  "Initialize_full_ASL p history =
     \<lparr>core = Initialize_ASL p history,
      lips_hist = map Num (SMMA_trace (SMMA_init (lipsLength p)) history),
      teeth_hist = map Num (SMMA_trace (SMMA_init (teethLength p)) history)\<rparr>"

definition OnData_full_ASL :: "params \<Rightarrow> inst \<Rightarrow> bar \<Rightarrow> real option \<Rightarrow> error + inst" where
  "OnData_full_ASL p s b atr =
     (let c = core s;
          i = \<lparr>the_bar = b, trend_ok = False, atr_ready = (atr \<noteq> None),
               atr_value = (case atr of None \<Rightarrow> 0 | Some v \<Rightarrow> v)\<rparr>
      in if \<not> SMMA_Ready (jaw_ind c) \<or> \<not> SMMA_Ready (teeth_ind c) \<or> \<not> SMMA_Ready (lips_ind c)
            \<or> atr = None
         then Inr s
         else
           (let hl2 = (High b + Low b) / 2;
                ls = lips_hist s @ [Num (SMMA_next (lips_ind c) hl2)];
                ts = teeth_hist s @ [Num (SMMA_next (teeth_ind c) hl2)];
                hs = hl2s c @ [hl2]
            in if \<not> invested c \<and> \<not> cooldown_days_remaining c > 0 \<and> \<not> length hs < 20
               then (case is_trending_ema (map Num (slice_last 20 hs)) (slice_last 20 ls)
                            (slice_last 20 ts) of
                       Inl e \<Rightarrow> Inl e
                     | Inr tr \<Rightarrow>
                         Inr \<lparr>core = OnData_ASL p c (i\<lparr>trend_ok := tr\<rparr>),
                              lips_hist = ls, teeth_hist = ts\<rparr>)
               else Inr \<lparr>core = OnData_ASL p c i, lips_hist = ls, teeth_hist = ts\<rparr>))"

fun run_full_ASL :: "params \<Rightarrow> inst \<Rightarrow> (bar \<times> real option) list \<Rightarrow> error + inst" where
  "run_full_ASL p s [] = Inr s"
| "run_full_ASL p s ((b, atr) # bs) =
     (case OnData_full_ASL p s b atr of Inl e \<Rightarrow> Inl e | Inr s' \<Rightarrow> run_full_ASL p s' bs)"


section \<open>Hurst exponent (Williams2/main.py and WilliamsAlligator/main.py)\<close>

text \<open>
  The numpy calls over the reals.  \<open>ts[lag:] - ts[:-lag]\<close> pairs every element with the one
  \<open>lag\<close> places later.  \<open>np.polyfit(x, y, 1)[0]\<close> is the least-squares slope; numpy raises
  \<open>TypeError\<close> for an empty \<open>x\<close> and for vectors of different lengths.  The slope formula
  is the one of the normal equations, valid when \<open>x\<close> has two distinct entries (the lags
  are distinct, hence so are their logarithms).
\<close>

definition lag_diff :: "real list \<Rightarrow> nat \<Rightarrow> real list" where
  "lag_diff ts lag = map2 (\<lambda>a b. a - b) (drop lag ts) (take (length ts - lag) ts)"

definition tau_of :: "real list \<Rightarrow> int \<Rightarrow> real" where
  "tau_of ts lag = sqrt (np_std (lag_diff ts (nat lag)))"

definition fit_slope :: "real list \<Rightarrow> real list \<Rightarrow> real" where
  "fit_slope xs ys =
     (let n = real (length xs);
          sx = sum_list xs;
          sy = sum_list ys;
          sxy = sum_list (map2 (\<lambda>a b. a * b) xs ys);
          sxx = sum_list (map (\<lambda>a. a * a) xs)
      in (n * sxy - sx * sy) / (n * sxx - sx * sx))"

definition polyfit1 :: "real list \<Rightarrow> real list \<Rightarrow> error + real" where
  "polyfit1 xs ys =
     (if xs = [] then Inl TypeError
      else if length xs \<noteq> length ys then Inl TypeError
      else Inr (fit_slope xs ys))"

text \<open>The lags that survive the mask \<open>(lags > 0) & (tau > 0)\<close>, with their \<open>tau\<close>.\<close>

definition masked :: "real list \<Rightarrow> int \<Rightarrow> (int \<times> real) list" where
  "masked ts max_lag =
     filter (\<lambda>(lag, tau). lag > 0 \<and> tau > 0) (map (\<lambda>lag. (lag, tau_of ts lag)) [2..max_lag - 1])"

definition hurst_fit :: "real list \<Rightarrow> int \<Rightarrow> error + real" where
  "hurst_fit ts max_lag =
     (let m = masked ts max_lag
      in if length m < 2 then Inr (1 / 2)
         else polyfit1 (map (\<lambda>(lag, tau). ln (real_of_int lag)) m) (map (\<lambda>(lag, tau). ln tau) m))"

definition hurst_exponent_W2 :: "real list \<Rightarrow> int option \<Rightarrow> error + real" where
  "hurst_exponent_W2 ts max_lag =
     (let n = int (length ts)
      in if n < 10 then Inr (1 / 2)
         else
           (let ml0 = (case max_lag of None \<Rightarrow> max 2 (n div 2) | Some m \<Rightarrow> m);
                ml1 = min ml0 (n - 2)
            in if n < ml1 + 2
               then (let ml2 = max 2 (n div 3)
                     in if n < ml2 + 2 then Inr (1 / 2) else hurst_fit ts ml2)
               else hurst_fit ts ml1))"

definition is_trending_W2 :: "real list \<Rightarrow> real \<Rightarrow> error + bool" where
  "is_trending_W2 ts threshold =
     (case hurst_exponent_W2 ts None of Inl e \<Rightarrow> Inl e | Inr H \<Rightarrow> Inr (H > threshold))"

text \<open>
  The older copy in \<open>WilliamsAlligator/main.py\<close> has no neutral value: it raises
  \<open>ValueError\<close> on a series that is too short for the lag bound, and fits every lag
  without a mask.  The logarithm of a zero \<open>tau\<close> is not a real number (numpy
  computes \<open>-inf\<close>); that outcome is kept apart as \<open>NotFinite\<close>.
\<close>

datatype outcome = Raised error | NotFinite | Value real

definition hurst_exponent_WA :: "real list \<Rightarrow> int option \<Rightarrow> outcome" where
  "hurst_exponent_WA ts max_lag =
     (let n = int (length ts);
          ml = (case max_lag of None \<Rightarrow> max 2 (n div 2) | Some m \<Rightarrow> m)
      in if n < ml + 2 then Raised ValueError
         else
           (let lags = [2..min ml (n - 1) - 1];
                tau = map (tau_of ts) lags
            in if lags = [] then Raised TypeError
               else if list_ex (\<lambda>t. t \<le> 0) tau then NotFinite
               else (case polyfit1 (map (\<lambda>lag. ln (real_of_int lag)) lags) (map ln tau) of
                       Inl e \<Rightarrow> Raised e | Inr H \<Rightarrow> Value H)))"


section \<open>Auxiliary notions for the proofs\<close>

text \<open>
  The state of a \<open>ShiftedLine\<close> with period \<open>p\<close> and buffer capacity \<open>m\<close> after \<open>n\<close>
  updates.
\<close>

definition line_inv :: "int \<Rightarrow> nat \<Rightarrow> ShiftedLine \<Rightarrow> nat \<Rightarrow> bool" where
  "line_inv p m l n =
     (length_smma (smma l) = p \<and> maxlen l = m \<and> count (smma l) = int n
      \<and> length (buf l) = min n m)"

text \<open>Four bars used as concrete inputs of the detector: \<open>(price, jaw, teeth, lips)\<close>.\<close>

definition bar_bearish :: cbar where
  "bar_bearish = (1, (4, None), (3, None), (2, None))"

definition bar_bullish :: cbar where
  "bar_bullish = (10, (1, None), (2, None), (3, None))"

definition bar_shut :: cbar where
  "bar_shut = (10, (1, None), (2, None), (2, None))"

definition bar_flat :: cbar where
  "bar_flat = (5, (5, None), (5, None), (5, None))"


text \<open>
  A bar is processed by the Williams2 handler (it gets past \<open>update_indicators\<close>) once
  the price history, the bar included, has \<open>min_len\<close> entries.
\<close>

definition processed :: "params \<Rightarrow> algo \<Rightarrow> bool" where
  "processed p s = (min_len p \<le> int (length (hl2s s)) + 1)"

text \<open>
  The number of startup buys a run of the ATR-stop variant can still contain: those
  already ordered, plus one while the rule is armed.
\<close>

definition startup_count :: "algo \<Rightarrow> nat" where
  "startup_count s =
     count_list (orders s) (BUY Startup_trending) + (if startup_check s then 1 else 0)"


text \<open>
  Concrete inputs for the engines.  A bar is given by its \<open>hl2\<close> (with a range of 10 on
  either side) and its close.  The platform's history is twenty bars at 100, and the first
  twenty live bars stay there; they only fill the price history.
\<close>

definition bar_of :: "real \<Rightarrow> real \<Rightarrow> bar" where
  "bar_of h c = \<lparr>High = h + 10, Low = h - 10, Close = c\<rparr>"


definition hist100 :: "real list" where
  "hist100 = replicate 20 100"

definition flat20 :: "bar list" where
  "flat20 = replicate 20 (bar_of 100 100)"

text \<open>
  The states of a Williams2 run with the source's parameters on that history: after the
  twenty flat bars; after bar 21, which jumps to 140 and is bought on the startup rule;
  after bar 22 at 105; after bar 23 at 60, the end of the cooldown; after bar 24 at 109,
  which is stopped out; and after a bar 25 at 106, or at 108.  Each comes with the lips and
  teeth values the processed bars have added to the two line histories.
\<close>

definition st_warm :: algo where
  "st_warm =
     \<lparr>hl2s = replicate 20 100,
      jaw_ind = \<lparr>slength = 20, scurrent = Some 100, scount = 20\<rparr>,
      teeth_ind = \<lparr>slength = 12, scurrent = Some 100, scount = 20\<rparr>,
      lips_ind = \<lparr>slength = 8, scurrent = Some 100, scount = 20\<rparr>,
      jaw_prev = Some 100, teeth_prev = Some 100,
      lips_prev = Some 100,
      entryPrice = None, highestPrice = None, startup_check = True,
      wait_peak_check = False, peak_day_hl2 = None, peak_check_days = 0,
      cooldown_days_remaining = 0, invested = False,
      orders = []\<rparr>"

definition st_bought :: algo where
  "st_bought =
     \<lparr>hl2s = replicate 20 100 @ [140],
      jaw_ind = \<lparr>slength = 20, scurrent = Some 102, scount = 21\<rparr>,
      teeth_ind = \<lparr>slength = 12, scurrent = Some (310 / 3), scount = 21\<rparr>,
      lips_ind = \<lparr>slength = 8, scurrent = Some 105, scount = 21\<rparr>,
      jaw_prev = Some 102, teeth_prev = Some (310 / 3),
      lips_prev = Some 105,
      entryPrice = Some 140, highestPrice = Some 140, startup_check = True,
      wait_peak_check = False, peak_day_hl2 = None, peak_check_days = 0,
      cooldown_days_remaining = 2, invested = True,
      orders = [BUY Startup_trending]\<rparr>"

definition st_cool :: algo where
  "st_cool =
     \<lparr>hl2s = replicate 20 100 @ [140, 105],
      jaw_ind = \<lparr>slength = 20, scurrent = Some (2043 / 20), scount = 22\<rparr>,
      teeth_ind = \<lparr>slength = 12, scurrent = Some (3725 / 36), scount = 22\<rparr>,
      lips_ind = \<lparr>slength = 8, scurrent = Some 105, scount = 22\<rparr>,
      jaw_prev = Some (2043 / 20), teeth_prev = Some (3725 / 36),
      lips_prev = Some 105,
      entryPrice = Some 140, highestPrice = Some 140, startup_check = True,
      wait_peak_check = False, peak_day_hl2 = None, peak_check_days = 0,
      cooldown_days_remaining = 1, invested = True,
      orders = [BUY Startup_trending]\<rparr>"

definition st_open :: algo where
  "st_open =
     \<lparr>hl2s = replicate 20 100 @ [140, 105, 60],
      jaw_ind = \<lparr>slength = 20, scurrent = Some (40017 / 400), scount = 23\<rparr>,
      teeth_ind = \<lparr>slength = 12, scurrent = Some (43135 / 432), scount = 23\<rparr>,
      lips_ind = \<lparr>slength = 8, scurrent = Some (795 / 8), scount = 23\<rparr>,
      jaw_prev = Some (40017 / 400), teeth_prev = Some (43135 / 432),
      lips_prev = Some (795 / 8),
      entryPrice = Some 140, highestPrice = Some 140, startup_check = True,
      wait_peak_check = False, peak_day_hl2 = None, peak_check_days = 0,
      cooldown_days_remaining = 0, invested = True,
      orders = [BUY Startup_trending]\<rparr>"

definition st_sold :: algo where
  "st_sold =
     \<lparr>hl2s = replicate 20 100 @ [140, 105, 60, 109],
      jaw_ind = \<lparr>slength = 20, scurrent = Some (803923 / 8000), scount = 24\<rparr>,
      teeth_ind = \<lparr>slength = 12, scurrent = Some (521573 / 5184), scount = 24\<rparr>,
      lips_ind = \<lparr>slength = 8, scurrent = Some (6437 / 64), scount = 24\<rparr>,
      jaw_prev = Some (803923 / 8000), teeth_prev = Some (521573 / 5184),
      lips_prev = Some (6437 / 64),
      entryPrice = None, highestPrice = None, startup_check = True,
      wait_peak_check = True, peak_day_hl2 = None, peak_check_days = 0,
      cooldown_days_remaining = 0, invested = False,
      orders = [BUY Startup_trending, SELL Trailing_stop]\<rparr>"

definition st_crossed :: algo where
  "st_crossed =
     \<lparr>hl2s = replicate 20 100 @ [140, 105, 60, 109, 106],
      jaw_ind = \<lparr>slength = 20, scurrent = Some (16122537 / 160000), scount = 25\<rparr>,
      teeth_ind = \<lparr>slength = 12, scurrent = Some (6286807 / 62208), scount = 25\<rparr>,
      lips_ind = \<lparr>slength = 8, scurrent = Some (51843 / 512), scount = 25\<rparr>,
      jaw_prev = Some (16122537 / 160000), teeth_prev = Some (6286807 / 62208),
      lips_prev = Some (51843 / 512),
      entryPrice = Some 106, highestPrice = Some 106, startup_check = True,
      wait_peak_check = False, peak_day_hl2 = None, peak_check_days = 0,
      cooldown_days_remaining = 2, invested = True,
      orders = [BUY Startup_trending, SELL Trailing_stop, BUY Startup_trending, BUY Cross_filter]\<rparr>"

definition st_again :: algo where
  "st_again =
     \<lparr>hl2s = replicate 20 100 @ [140, 105, 60, 109, 108],
      jaw_ind = \<lparr>slength = 20, scurrent = Some (16138537 / 160000), scount = 25\<rparr>,
      teeth_ind = \<lparr>slength = 12, scurrent = Some (6297175 / 62208), scount = 25\<rparr>,
      lips_ind = \<lparr>slength = 8, scurrent = Some (51971 / 512), scount = 25\<rparr>,
      jaw_prev = Some (16138537 / 160000), teeth_prev = Some (6297175 / 62208),
      lips_prev = Some (51971 / 512),
      entryPrice = Some 108, highestPrice = Some 108, startup_check = True,
      wait_peak_check = False, peak_day_hl2 = None, peak_check_days = 0,
      cooldown_days_remaining = 2, invested = True,
      orders = [BUY Startup_trending, SELL Trailing_stop, BUY Startup_trending]\<rparr>"

definition inst_of :: "algo \<Rightarrow> real list \<Rightarrow> real list \<Rightarrow> inst" where
  "inst_of c ls ts =
     \<lparr>core = c, lips_hist = Obj # replicate 20 (Num 100) @ map Num ls,
      teeth_hist = Obj # replicate 20 (Num 100) @ map Num ts\<rparr>"

definition in_warm :: inst where
  "in_warm = inst_of st_warm [] []"

definition in_bought :: inst where
  "in_bought =
     inst_of st_bought [105]
       [310 / 3]"

definition in_cool :: inst where
  "in_cool =
     inst_of st_cool [105, 105]
       [310 / 3, 3725 / 36]"

definition in_open :: inst where
  "in_open =
     inst_of st_open [105, 105, 795 / 8]
       [310 / 3, 3725 / 36, 43135 / 432]"

definition in_sold :: inst where
  "in_sold =
     inst_of st_sold [105, 105, 795 / 8, 6437 / 64]
       [310 / 3, 3725 / 36, 43135 / 432, 521573 / 5184]"

definition in_crossed :: inst where
  "in_crossed =
     inst_of st_crossed [105, 105, 795 / 8, 6437 / 64, 51843 / 512]
       [310 / 3, 3725 / 36, 43135 / 432, 521573 / 5184, 6286807 / 62208]"

definition in_again :: inst where
  "in_again =
     inst_of st_again [105, 105, 795 / 8, 6437 / 64, 51971 / 512]
       [310 / 3, 3725 / 36, 43135 / 432, 521573 / 5184, 6297175 / 62208]"

text \<open>
  The state in which \<open>check_entry\<close> finds the instance on bar 25 at 106: the state after
  the SELL, with the indicators updated.
\<close>

definition st_seen :: algo where
  "st_seen = fst (update_indicators_W2 params_W2 st_sold (bar_of 106 106))"

definition window25 :: "real list" where
  "window25 = replicate 15 100 @ [140, 105, 60, 109, 106]"

text \<open>A filter state in the middle of a wait, with a price history whose last value is cheap.\<close>

definition st_waiting :: algo where
  "st_waiting =
     \<lparr>hl2s = 80 # replicate 18 100 @ [80],
      jaw_ind = SMMA_init 20, teeth_ind = SMMA_init 12, lips_ind = SMMA_init 8,
      jaw_prev = None, teeth_prev = None, lips_prev = None,
      entryPrice = None, highestPrice = None, startup_check = True,
      wait_peak_check = True, peak_day_hl2 = Some 120, peak_check_days = 1,
      cooldown_days_remaining = 0, invested = False, orders = []\<rparr>"




text \<open>
  Bars for the ATR-stop variant: the live bars that arrive while the platform's ATR is not
  ready yet, which the handler skips, and three bars closing at 50 with the ATR at 20.
\<close>

definition asl_quiet :: "(bar \<times> real option) list" where
  "asl_quiet = replicate 14 (bar_of 100 100, None)"

definition asl_bars :: "(bar \<times> real option) list" where
  "asl_bars = [(bar_of 60 50, Some 20), (bar_of 60 50, Some 20), (bar_of 60 50, Some 20)]"

text \<open>The orders, the position and the cooldown counter at the end of a run.\<close>

definition position_of :: "error + inst \<Rightarrow> error + (order list \<times> bool \<times> int)" where
  "position_of r =
     (case r of
        Inl e \<Rightarrow> Inl e
      | Inr s \<Rightarrow> Inr (orders (core s), invested (core s), cooldown_days_remaining (core s)))"


section \<open>Properties of the crossover state machine\<close>

lemma step_emits_iff:
  "fst (step st b) = (bullish b \<and> (st = BELOW_ALL \<or> st = ReArmed \<or> st = MOUTH_SHUT))"
  by (cases b; cases st) (auto simp: step_def bullish_def update_state_def Let_def)

lemma step_emits_next: "fst (step st b) \<Longrightarrow> snd (step st b) = ABOVE_lips"
  by (cases b; cases st) (auto simp: step_def update_state_def Let_def split: if_splits)

lemma step_above_bullish: "bullish b \<Longrightarrow> step ABOVE_lips b = (False, ABOVE_lips)"
  by (cases b) (auto simp: step_def bullish_def update_state_def Let_def)

lemma step_reset: "bearish_below b \<Longrightarrow> step st b = (False, BELOW_ALL)"
  by (cases b) (auto simp: step_def bearish_below_def update_state_def Let_def)

lemma step_unknown: "\<not> bearish_below b \<Longrightarrow> step Unknown b = (False, Unknown)"
  by (cases b) (auto simp: step_def bearish_below_def update_state_def Let_def)

lemma step_armed_stays:
  assumes "st = BELOW_ALL \<or> st = ReArmed" and "\<not> bullish b"
  shows "fst (step st b) = False"
    and "snd (step st b) = BELOW_ALL \<or> snd (step st b) = ReArmed"
  using assms
  by (cases b; auto simp: step_def bullish_def update_state_def Let_def)+

lemma step_rearmed_stays:
  assumes "\<not> bullish b" and "\<not> bearish_below b"
  shows "step ReArmed b = (False, ReArmed)"
  using assms
  by (cases b) (auto simp: step_def bullish_def bearish_below_def update_state_def Let_def)

text \<open>
  An armed machine (\<open>BELOW_ALL\<close> or \<open>ReArmed\<close>) stays armed and silent on bars that are not
  bullish, and fires on the first bullish one: induction on the silent prefix, the state
  generalised.
\<close>

lemma armed_run:
  assumes "st = BELOW_ALL \<or> st = ReArmed"
    and "list_all (\<lambda>x. \<not> bullish x) bs" and "bullish c"
  shows "emitted st (bs @ [c]) = replicate (length bs) False @ [True]"
  using assms(1,2)
proof (induction bs arbitrary: st)
  case Nil
  with assms(3) show ?case
    using step_emits_iff[of st c] by auto
next
  case (Cons b bs)
  from Cons.prems have nb: "\<not> bullish b" and rest: "list_all (\<lambda>x. \<not> bullish x) bs"
    by auto
  have f: "fst (step st b) = False"
    and s: "snd (step st b) = BELOW_ALL \<or> snd (step st b) = ReArmed"
    using step_armed_stays[OF Cons.prems(1) nb] by auto
  from Cons.IH[OF s rest] f show ?case by simp
qed

lemma rearmed_run_states:
  assumes "list_all (\<lambda>x. \<not> bullish x \<and> \<not> bearish_below x) bs" and "bullish c"
  shows "visited ReArmed (bs @ [c]) = replicate (length bs) ReArmed @ [ABOVE_lips]"
  using assms(1)
proof (induction bs)
  case Nil
  from assms(2) have "fst (step ReArmed c)" by (simp add: step_emits_iff)
  then show ?case using step_emits_next[of ReArmed c] by simp
next
  case (Cons b bs)
  then have "step ReArmed b = (False, ReArmed)"
    using step_rearmed_stays[of b] by simp
  with Cons show ?case by simp
qed

text \<open>
  Claim C1, as amended.  \<open>update_state\<close> returns true on a bar exactly when the price is
  above the fastest line, the lines are in bullish order, and the state before the bar is
  \<open>BELOW_ALL\<close>, \<open>ReArmed\<close> or \<open>MOUTH_SHUT\<close>; the machine then moves to \<open>ABOVE_lips\<close>, where
  further bullish bars return false.  So after a bearish bar below all lines, every bar up
  to the first bullish one returns false and that one returns true; and after \<open>rearm()\<close>
  the first bullish bar returns true, also when the machine has stayed in \<open>ReArmed\<close> all
  the while.  A later true without a new reset is possible through \<open>MOUTH_SHUT\<close>.
\<close>

theorem crossover_one_shot:
  "fst (step st b) = (bullish b \<and> (st = BELOW_ALL \<or> st = ReArmed \<or> st = MOUTH_SHUT))
   \<and> (fst (step st b) \<longrightarrow> snd (step st b) = ABOVE_lips)
   \<and> (bullish b \<longrightarrow> step ABOVE_lips b = (False, ABOVE_lips))
   \<and> (bearish_below b \<and> list_all (\<lambda>x. \<not> bullish x) bs \<and> bullish c \<longrightarrow>
        emitted st (b # bs @ [c]) = False # replicate (length bs) False @ [True])
   \<and> (list_all (\<lambda>x. \<not> bullish x) bs \<and> bullish c \<longrightarrow>
        emitted (rearm st) (bs @ [c]) = replicate (length bs) False @ [True])
   \<and> (list_all (\<lambda>x. \<not> bullish x \<and> \<not> bearish_below x) bs \<and> bullish c \<longrightarrow>
        visited (rearm st) (bs @ [c]) = replicate (length bs) ReArmed @ [ABOVE_lips])"
proof (intro conjI impI)
  show "fst (step st b) = (bullish b \<and> (st = BELOW_ALL \<or> st = ReArmed \<or> st = MOUTH_SHUT))"
    by (rule step_emits_iff)
next
  assume "fst (step st b)"
  then show "snd (step st b) = ABOVE_lips" by (rule step_emits_next)
next
  assume "bullish b"
  then show "step ABOVE_lips b = (False, ABOVE_lips)" by (rule step_above_bullish)
next
  assume a: "bearish_below b \<and> list_all (\<lambda>x. \<not> bullish x) bs \<and> bullish c"
  then have r: "step st b = (False, BELOW_ALL)" by (simp add: step_reset)
  from a have "emitted BELOW_ALL (bs @ [c]) = replicate (length bs) False @ [True]"
    by (intro armed_run) auto
  with r show "emitted st (b # bs @ [c]) = False # replicate (length bs) False @ [True]"
    by simp
next
  assume "list_all (\<lambda>x. \<not> bullish x) bs \<and> bullish c"
  then show "emitted (rearm st) (bs @ [c]) = replicate (length bs) False @ [True]"
    unfolding rearm_def by (intro armed_run) auto
next
  assume "list_all (\<lambda>x. \<not> bullish x \<and> \<not> bearish_below x) bs \<and> bullish c"
  then show "visited (rearm st) (bs @ [c]) = replicate (length bs) ReArmed @ [ABOVE_lips]"
    unfolding rearm_def by (intro rearmed_run_states) auto
qed

lemmas cbar_defs = bar_bearish_def bar_bullish_def bar_shut_def bar_flat_def
  bullish_def bearish_below_def step_def update_state_def rearm_def

theorem crossover_one_shot_witness:
  "bullish bar_bullish \<and> bearish_below bar_bearish
   \<and> list_all (\<lambda>x. \<not> bullish x) [bar_flat, bar_shut]
   \<and> list_all (\<lambda>x. \<not> bullish x \<and> \<not> bearish_below x) [bar_flat, bar_shut]
   \<and> fst (step BELOW_ALL bar_bullish)
   \<and> snd (step BELOW_ALL bar_bullish) = ABOVE_lips
   \<and> step ABOVE_lips bar_bullish = (False, ABOVE_lips)
   \<and> emitted ABOVE_lips (bar_bearish # [bar_flat, bar_shut] @ [bar_bullish])
       = False # replicate (length [bar_flat, bar_shut]) False @ [True]
   \<and> emitted (rearm ABOVE_lips) ([bar_flat, bar_shut] @ [bar_bullish])
       = replicate (length [bar_flat, bar_shut]) False @ [True]
   \<and> visited (rearm ABOVE_lips) ([bar_flat, bar_shut] @ [bar_bullish])
       = replicate (length [bar_flat, bar_shut]) ReArmed @ [ABOVE_lips]"
proof -
  have h: "bullish bar_bullish" "bearish_below bar_bearish"
    "list_all (\<lambda>x. \<not> bullish x) [bar_flat, bar_shut]"
    "list_all (\<lambda>x. \<not> bullish x \<and> \<not> bearish_below x) [bar_flat, bar_shut]"
    by (simp_all add: cbar_defs)
  have a: "fst (step BELOW_ALL bar_bullish)"
    using h(1) crossover_one_shot[of BELOW_ALL bar_bullish "[]" bar_bullish] by blast
  have b: "snd (step BELOW_ALL bar_bullish) = ABOVE_lips"
    using a crossover_one_shot[of BELOW_ALL bar_bullish "[]" bar_bullish] by blast
  have c: "step ABOVE_lips bar_bullish = (False, ABOVE_lips)"
    using h(1) crossover_one_shot[of BELOW_ALL bar_bullish "[]" bar_bullish] by blast
  note T = crossover_one_shot[of ABOVE_lips bar_bearish "[bar_flat, bar_shut]" bar_bullish]
  have d: "emitted ABOVE_lips (bar_bearish # [bar_flat, bar_shut] @ [bar_bullish])
             = False # replicate (length [bar_flat, bar_shut]) False @ [True]"
    using h T by blast
  have e: "emitted (rearm ABOVE_lips) ([bar_flat, bar_shut] @ [bar_bullish])
             = replicate (length [bar_flat, bar_shut]) False @ [True]"
    using h T by blast
  have f: "visited (rearm ABOVE_lips) ([bar_flat, bar_shut] @ [bar_bullish])
             = replicate (length [bar_flat, bar_shut]) ReArmed @ [ABOVE_lips]"
    using h T by blast
  from h a b c d e f show ?thesis by blast
qed

text \<open>
  Claim C1 as stated fails: after one bearish bar below all lines, the machine fires on
  the bullish bar, the lines then leave the bullish order while the price stays on the
  fastest line's upper side (\<open>MOUTH_SHUT\<close>), and the next bullish bar fires again, with
  no bearish bar in between.
\<close>

theorem crossover_second_emission_counterexample:
  "emitted BelowToLipsCrossover_init [bar_bearish, bar_bullish, bar_shut, bar_bullish]
     = [False, True, False, True]
   \<and> visited BelowToLipsCrossover_init [bar_bearish, bar_bullish, bar_shut, bar_bullish]
     = [BELOW_ALL, ABOVE_lips, MOUTH_SHUT, ABOVE_lips]
   \<and> \<not> bearish_below bar_shut \<and> \<not> bullish bar_shut"
  by (simp add: cbar_defs BelowToLipsCrossover_init_def)

text \<open>
  Claim C7, as amended.  A fresh machine is in the state \<open>unknown\<close>, in which it stays
  silent until the first bearish bar below all lines; on every such bar the machine
  enters \<open>BELOW_ALL\<close> from any state and emits false.
\<close>

theorem crossover_reset:
  "BelowToLipsCrossover_init = Unknown
   \<and> (bearish_below b \<longrightarrow> step st b = (False, BELOW_ALL))
   \<and> (\<not> bearish_below b \<longrightarrow> step BelowToLipsCrossover_init b = (False, Unknown))"
  by (simp add: BelowToLipsCrossover_init_def step_reset step_unknown)

theorem crossover_reset_witness:
  "bearish_below bar_bearish \<and> step MOUTH_SHUT bar_bearish = (False, BELOW_ALL)
   \<and> \<not> bearish_below bar_bullish
   \<and> step BelowToLipsCrossover_init bar_bullish = (False, Unknown)"
proof -
  have h: "bearish_below bar_bearish" "\<not> bearish_below bar_bullish"
    by (simp_all add: bar_bearish_def bar_bullish_def bearish_below_def)
  have a: "step MOUTH_SHUT bar_bearish = (False, BELOW_ALL)"
    using h(1) crossover_reset[of bar_bearish MOUTH_SHUT] by blast
  have b: "step BelowToLipsCrossover_init bar_bullish = (False, Unknown)"
    using h(2) crossover_reset[of bar_bullish MOUTH_SHUT] by blast
  from h a b show ?thesis by blast
qed

text \<open>
  Claim C7 as stated fails in its first half: the constructor's state is not
  \<open>BELOW_ALL\<close>, and the difference shows on a first bar that is bullish, which fires from
  \<open>BELOW_ALL\<close> but not from the fresh machine.
\<close>

theorem crossover_initial_state_counterexample:
  "BelowToLipsCrossover_init \<noteq> BELOW_ALL
   \<and> step BelowToLipsCrossover_init bar_bullish = (False, Unknown)
   \<and> step BELOW_ALL bar_bullish = (True, ABOVE_lips)"
  by (simp add: cbar_defs BelowToLipsCrossover_init_def)


section \<open>Properties of the smoothers\<close>

lemma deque_append_length:
  "0 < m \<Longrightarrow> length b \<le> m \<Longrightarrow> length (deque_append m b x) = min (Suc (length b)) m"
  by (cases b) (auto simp: deque_append_def)

lemma deque_append_nonempty: "0 < m \<Longrightarrow> deque_append m b x \<noteq> []"
  by (auto simp: deque_append_def)

lemma SMMA_Update_ok:
  "length_smma s \<noteq> 0 \<Longrightarrow>
     \<exists>s' c pv. SMMA_Update s x = Inr (s', c, pv) \<and> length_smma s' = length_smma s
        \<and> count s' = count s + 1"
  by (cases "current s") (auto simp: SMMA_Update_def Let_def)

lemma Update_inv:
  assumes "line_inv p m l n" and "p \<noteq> 0" and "0 < m"
  shows "\<exists>l' a b. ShiftedLine_Update l x = Inr (l', a, b) \<and> line_inv p m l' (Suc n)"
proof -
  from assms have nz: "length_smma (smma l) \<noteq> 0" by (simp add: line_inv_def)
  from SMMA_Update_ok[OF nz, of x] obtain s' c pv where
    u: "SMMA_Update (smma l) x = Inr (s', c, pv)" and
    len: "length_smma s' = length_smma (smma l)" and cnt: "count s' = count (smma l) + 1"
    by blast
  let ?b = "deque_append (maxlen l) (buf l) c"
  from assms have ml: "maxlen l = m" and bl: "length (buf l) = min n m"
    by (simp_all add: line_inv_def)
  have lb: "length ?b = min (Suc n) m"
    using deque_append_length[of m "buf l" c] assms(3) ml bl by auto
  have ne: "?b \<noteq> []" using deque_append_nonempty[OF assms(3)] ml by simp
  then obtain y ys where b: "?b = y # ys" by (cases ?b) auto
  show ?thesis
    using u len cnt ml lb b assms(1)
    by (auto simp: ShiftedLine_Update_def line_inv_def Let_def)
qed

lemma feed_inv:
  assumes "line_inv p m l n" and "p \<noteq> 0" and "0 < m"
  shows "\<exists>l'. feed l xs = Inr l' \<and> line_inv p m l' (n + length xs)"
  using assms(1)
proof (induction xs arbitrary: l n)
  case Nil
  then show ?case by simp
next
  case (Cons x xs)
  from Update_inv[OF Cons.prems assms(2,3), of x]
  obtain l' a b where u: "ShiftedLine_Update l x = Inr (l', a, b)"
    and i: "line_inv p m l' (Suc n)"
    by blast
  from Cons.IH[OF i] u show ?case by auto
qed

lemma feed_keeps:
  "feed l xs = Inr l' \<Longrightarrow>
     length_smma (smma l') = length_smma (smma l) \<and> shift l' = shift l \<and> maxlen l' = maxlen l"
proof (induction xs arbitrary: l)
  case Nil
  then show ?case by simp
next
  case (Cons x xs)
  then show ?case
    by (fastforce simp: ShiftedLine_Update_def SMMA_Update_def Let_def
        split: sum.splits option.splits if_splits list.splits prod.splits)
qed

text \<open>
  Claim C2, as amended.  For period \<open>p \<ge> 1\<close> and shift \<open>s \<ge> 0\<close>, no update raises, and
  after \<open>n\<close> updates \<open>IsReady\<close> holds exactly when \<open>n \<ge> max p (s + 1)\<close>, whatever the
  input values: the smoother needs \<open>p\<close> updates, its buffer \<open>s + 1\<close>, and both count the
  same updates.
\<close>

theorem shifted_line_ready:
  assumes "1 \<le> p" and "0 \<le> s"
  shows "ready_after p s xs = Inr (max p (s + 1) \<le> int (length xs))"
proof -
  let ?l0 = "\<lparr>smma = SMMAIndicator_init p, buf = [], maxlen = nat (s + 1), shift = s\<rparr>"
  have i0: "line_inv p (nat (s + 1)) ?l0 0"
    by (simp add: line_inv_def SMMAIndicator_init_def)
  from assms have "p \<noteq> 0" and "0 < nat (s + 1)" by auto
  from feed_inv[OF i0 this, of xs]
  obtain l' where f: "feed ?l0 xs = Inr l'" and i: "line_inv p (nat (s + 1)) l' (length xs)"
    by auto
  from i assms have "ShiftedLine_IsReady l' = (max p (s + 1) \<le> int (length xs))"
    by (auto simp: ShiftedLine_IsReady_def SMMA_IsReady_def line_inv_def)
  with f assms show ?thesis
    by (simp add: ready_after_def ShiftedLine_init_def)
qed

theorem shifted_line_ready_witness:
  "(1::int) \<le> 13 \<and> (0::int) \<le> 8
   \<and> ready_after 13 8 [1, 2, 3, 4, 5, 6, 7, 8, 9, 10, 11, 12] = Inr False
   \<and> ready_after 13 8 [1, 2, 3, 4, 5, 6, 7, 8, 9, 10, 11, 12, 13] = Inr True"
proof -
  have h: "(1::int) \<le> 13" "(0::int) \<le> 8" by simp_all
  have a: "ready_after 13 8 [1, 2, 3, 4, 5, 6, 7, 8, 9, 10, 11, 12] = Inr False"
    using shifted_line_ready[OF h, of "[1, 2, 3, 4, 5, 6, 7, 8, 9, 10, 11, 12]"] by simp
  have b: "ready_after 13 8 [1, 2, 3, 4, 5, 6, 7, 8, 9, 10, 11, 12, 13] = Inr True"
    using shifted_line_ready[OF h, of "[1, 2, 3, 4, 5, 6, 7, 8, 9, 10, 11, 12, 13]"] by simp
  from h a b show ?thesis by blast
qed

lemmas line_defs = ready_after_def ShiftedLine_init_def ShiftedLine_Update_def
  SMMA_Update_def SMMAIndicator_init_def deque_append_def ShiftedLine_IsReady_def
  SMMA_IsReady_def Let_def

text \<open>
  Claim C2 as stated fails: the lips line of the source, \<open>ShiftedLine(5, 3)\<close>, is ready
  after 5 updates, not only after \<open>5 + 3 + 1 = 9\<close>.
\<close>

theorem shifted_line_ready_counterexample:
  "ready_after 5 3 [1, 2, 3, 4] = Inr False \<and> ready_after 5 3 [1, 2, 3, 4, 5] = Inr True"
  by (simp add: line_defs)

text \<open>
  Claim C9, as amended.  The constructors validate nothing: \<open>SMMAIndicator\<close> stores any
  period, and \<open>ShiftedLine\<close> any period and any shift from \<open>-1\<close> on, unchanged; the only
  rejection is the \<open>ValueError\<close> of the deque constructor for a shift below \<open>-1\<close>.  The
  stored values are never clamped by later updates.
\<close>

theorem constructors_accept:
  "length_smma (SMMAIndicator_init p) = p
   \<and> (s < - 1 \<longrightarrow> ShiftedLine_init p s = Inl ValueError)
   \<and> (- 1 \<le> s \<longrightarrow>
        ShiftedLine_init p s
          = Inr \<lparr>smma = SMMAIndicator_init p, buf = [], maxlen = nat (s + 1), shift = s\<rparr>)
   \<and> (ShiftedLine_init p s = Inr l \<and> feed l xs = Inr l' \<longrightarrow>
        length_smma (smma l') = p \<and> shift l' = s)"
proof (intro conjI impI)
  show "length_smma (SMMAIndicator_init p) = p" by (simp add: SMMAIndicator_init_def)
next
  assume "s < - 1"
  then show "ShiftedLine_init p s = Inl ValueError" by (simp add: ShiftedLine_init_def)
next
  assume "- 1 \<le> s"
  then show "ShiftedLine_init p s
      = Inr \<lparr>smma = SMMAIndicator_init p, buf = [], maxlen = nat (s + 1), shift = s\<rparr>"
    by (simp add: ShiftedLine_init_def)
next
  assume a: "ShiftedLine_init p s = Inr l \<and> feed l xs = Inr l'"
  then have "length_smma (smma l) = p" and "shift l = s"
    by (auto simp: ShiftedLine_init_def SMMAIndicator_init_def split: if_splits)
  with a feed_keeps[of l xs l'] show "length_smma (smma l') = p"  by simp
next
  assume a: "ShiftedLine_init p s = Inr l \<and> feed l xs = Inr l'"
  then have "shift l = s"
    by (auto simp: ShiftedLine_init_def split: if_splits)
  with a feed_keeps[of l xs l'] show "shift l' = s" by simp
qed

theorem constructors_accept_witness:
  "(- 2 :: int) < - 1 \<and> ShiftedLine_init 5 (- 2) = Inl ValueError
   \<and> (- 1 :: int) \<le> - 1
   \<and> ShiftedLine_init (- 3) (- 1)
       = Inr \<lparr>smma = SMMAIndicator_init (- 3), buf = [], maxlen = nat (- 1 + 1), shift = - 1\<rparr>
   \<and> ShiftedLine_init (- 3) 0
       = Inr \<lparr>smma = SMMAIndicator_init (- 3), buf = [], maxlen = 1, shift = 0\<rparr>
   \<and> feed \<lparr>smma = SMMAIndicator_init (- 3), buf = [], maxlen = 1, shift = 0\<rparr> [6, 9]
       = Inr \<lparr>smma = \<lparr>length_smma = - 3, current = Some 5, prev = Some 6, count = 2\<rparr>,
              buf = [5], maxlen = 1, shift = 0\<rparr>
   \<and> length_smma (smma \<lparr>smma = \<lparr>length_smma = - 3, current = Some 5, prev = Some 6, count = 2\<rparr>,
              buf = [5], maxlen = 1, shift = 0\<rparr>) = - 3
   \<and> shift \<lparr>smma = \<lparr>length_smma = - 3, current = Some 5, prev = Some 6, count = 2\<rparr>,
              buf = [5], maxlen = 1, shift = 0\<rparr> = 0"
proof -
  have h: "(- 2 :: int) < - 1" "(- 1 :: int) \<le> - 1" by simp_all
  have a: "ShiftedLine_init 5 (- 2) = Inl ValueError"
    using h(1) constructors_accept[of 5 "- 2"] by blast
  have b: "ShiftedLine_init (- 3) (- 1)
       = Inr \<lparr>smma = SMMAIndicator_init (- 3), buf = [], maxlen = nat (- 1 + 1), shift = - 1\<rparr>"
    using h(2) constructors_accept[of "- 3" "- 1"] by blast
  have c: "ShiftedLine_init (- 3) 0
       = Inr \<lparr>smma = SMMAIndicator_init (- 3), buf = [], maxlen = 1, shift = 0\<rparr>"
    by (simp add: ShiftedLine_init_def)
  have d: "feed \<lparr>smma = SMMAIndicator_init (- 3), buf = [], maxlen = 1, shift = 0\<rparr> [6, 9]
       = Inr \<lparr>smma = \<lparr>length_smma = - 3, current = Some 5, prev = Some 6, count = 2\<rparr>,
              buf = [5], maxlen = 1, shift = 0\<rparr>"
    by (simp add: line_defs)
  note T = constructors_accept[of "- 3" 0
      "\<lparr>smma = SMMAIndicator_init (- 3), buf = [], maxlen = 1, shift = 0\<rparr>" "[6, 9]"
      "\<lparr>smma = \<lparr>length_smma = - 3, current = Some 5, prev = Some 6, count = 2\<rparr>,
              buf = [5], maxlen = 1, shift = 0\<rparr>"]
  have e: "length_smma (smma \<lparr>smma = \<lparr>length_smma = - 3, current = Some 5, prev = Some 6, count = 2\<rparr>,
              buf = [5], maxlen = 1, shift = 0\<rparr>) = - 3"
    using c d T by blast
  have f: "shift \<lparr>smma = \<lparr>length_smma = - 3, current = Some 5, prev = Some 6, count = 2\<rparr>,
              buf = [5], maxlen = 1, shift = 0\<rparr> = 0"
    using c d T by blast
  from h a b c d e f show ?thesis by blast
qed

text \<open>
  Claim C9 as stated fails: a smoother with period 0 and shift \<open>-1\<close> is constructed
  without error.
\<close>

theorem constructors_accept_counterexample:
  "ShiftedLine_init 0 (- 1)
     = Inr \<lparr>smma = \<lparr>length_smma = 0, current = None, prev = None, count = 0\<rparr>,
            buf = [], maxlen = 0, shift = - 1\<rparr>"
  by (simp add: ShiftedLine_init_def SMMAIndicator_init_def)

section \<open>Runs of the complete handlers\<close>

lemma params_W2_fields:
  "jawLength params_W2 = 20" "teethLength params_W2 = 12" "lipsLength params_W2 = 8"
  "cooldown_days params_W2 = 3" "lips_price_gap_pct params_W2 = 6"
  "stopLossPct params_W2 = 3 / 1000" "trailingStopPct params_W2 = 3 / 1000"
  by (simp_all add: params_W2_def)

lemmas w2_defs = run_W2_def OnData_W2_def update_indicators_W2_def trade_W2_def finish_W2_def
  check_entry_W2_def check_exit_W2_def buy_W2_def sell_W2_def Initialize_W2_def
  params_W2_fields min_len_def SMMA_Upd_def SMMA_next_def SMMA_init_def cross_up_def
  cross_down_def new_high_def lips_price_gap_ok_def bar_of_def feed_of_def Let_def

lemmas trend_defs = compute_trend_flag_W2_def is_trending_ema_def ema_with_slope_def ema_def
  numbers_def slope_above_def slice_last_def

lemmas full_defs = OnData_full_W2_def Initialize_full_W2_def inst_of_def trend_defs w2_defs

lemmas asl_defs = OnData_full_ASL_def Initialize_full_ASL_def OnData_ASL_def
  check_entry_ASL_def check_exit_ASL_def buy_ASL_def sell_ASL_def Initialize_ASL_def
  params_ASL_def SMMA_Upd_def SMMA_next_def SMMA_init_def SMMA_Ready_def cross_up_def
  cross_down_def bar_of_def hist100_def is_trending_ema_def ema_with_slope_def ema_def
  numbers_def slope_above_def slice_last_def Let_def

text \<open>
  What the complete handlers add to the handlers that take the trend flag as an input:
  every step of a complete handler that returns is a step of the other, with the flag the
  gate has computed (or no flag at all, when \<open>check_entry\<close> is not called).
\<close>

lemma OnData_full_W2_core:
  assumes "OnData_full_W2 p s b = Inr s'"
  shows "\<exists>tr. core s' = OnData_W2 p (core s) (feed_of b tr)"
proof (cases "snd (update_indicators_W2 p (core s) b)")
  case None
  then have u: "update_indicators_W2 p (core s) b = (fst (update_indicators_W2 p (core s) b), None)"
    by (metis prod.collapse)
  from assms have "core s' = fst (update_indicators_W2 p (core s) b)"
    unfolding OnData_full_W2_def by (subst (asm) u) auto
  moreover have "OnData_W2 p (core s) (feed_of b False) = fst (update_indicators_W2 p (core s) b)"
    unfolding OnData_W2_def feed_of_def by (simp, subst u, simp)
  ultimately show ?thesis by metis
next
  case (Some q)
  obtain hl2 jaw teeth lips where q: "q = (hl2, jaw, teeth, lips)" by (cases q)
  let ?s1 = "fst (update_indicators_W2 p (core s) b)"
  have u: "update_indicators_W2 p (core s) b = (?s1, Some (hl2, jaw, teeth, lips))"
    using Some q by (metis prod.collapse)
  show ?thesis
  proof (cases "invested ?s1")
    case True
    with assms have "core s' = OnData_W2 p (core s) (feed_of b False)"
      unfolding OnData_full_W2_def by (subst (asm) u) (auto simp add: Let_def)
    then show ?thesis by blast
  next
    case False
    with assms obtain tr where "core s' = OnData_W2 p (core s) (feed_of b tr)"
      unfolding OnData_full_W2_def
      by (subst (asm) u) (auto simp add: Let_def split: sum.splits)
    then show ?thesis by blast
  qed
qed

lemma run_full_W2_core:
  assumes "run_full_W2 p s bs = Inr s'"
  shows "\<exists>is. map the_bar is = bs \<and> core s' = run_W2 p (core s) is"
  using assms
proof (induction bs arbitrary: s)
  case Nil
  then have "map the_bar [] = [] \<and> core s' = run_W2 p (core s) []"
    by (simp add: run_W2_def)
  then show ?case by (rule exI)
next
  case (Cons b bs)
  from Cons.prems obtain s1 where s1: "OnData_full_W2 p s b = Inr s1"
    and r: "run_full_W2 p s1 bs = Inr s'"
    by (auto split: sum.splits)
  from OnData_full_W2_core[OF s1] obtain tr where
    tr: "core s1 = OnData_W2 p (core s) (feed_of b tr)" by blast
  from Cons.IH[OF r] obtain "is" where
    is': "map the_bar is = bs" "core s' = run_W2 p (core s1) is" by blast
  have "map the_bar (feed_of b tr # is) = b # bs
      \<and> core s' = run_W2 p (core s) (feed_of b tr # is)"
    using is' tr by (simp add: run_W2_def feed_of_def)
  then show ?case by (rule exI)
qed

lemma OnData_full_ASL_core:
  assumes "OnData_full_ASL p s b atr = Inr s'"
  shows "\<exists>tr. core s' = OnData_ASL p (core s)
     \<lparr>the_bar = b, trend_ok = tr, atr_ready = (atr \<noteq> None),
      atr_value = (case atr of None \<Rightarrow> 0 | Some v \<Rightarrow> v)\<rparr>"
proof (cases "\<not> SMMA_Ready (jaw_ind (core s)) \<or> \<not> SMMA_Ready (teeth_ind (core s))
    \<or> \<not> SMMA_Ready (lips_ind (core s)) \<or> atr = None")
  case True
  with assms have "s' = s" by (auto simp add: OnData_full_ASL_def Let_def)
  moreover from True have "OnData_ASL p (core s)
     \<lparr>the_bar = b, trend_ok = False, atr_ready = (atr \<noteq> None),
      atr_value = (case atr of None \<Rightarrow> 0 | Some v \<Rightarrow> v)\<rparr> = core s"
    by (auto simp add: OnData_ASL_def)
  ultimately show ?thesis by metis
next
  case False
  with assms show ?thesis
    by (auto simp add: OnData_full_ASL_def Let_def split: if_splits sum.splits)
qed

lemma run_full_ASL_core:
  assumes "run_full_ASL p s bs = Inr s'"
  shows "\<exists>is. map the_bar is = map fst bs \<and> core s' = run_ASL p (core s) is"
  using assms
proof (induction bs arbitrary: s)
  case Nil
  then have "map the_bar [] = map fst ([] :: (bar \<times> real option) list)
      \<and> core s' = run_ASL p (core s) []"
    by (simp add: run_ASL_def)
  then show ?case by (rule exI)
next
  case (Cons x bs)
  obtain b atr where x: "x = (b, atr)" by (cases x)
  from Cons.prems obtain s1 where s1: "OnData_full_ASL p s b atr = Inr s1"
    and r: "run_full_ASL p s1 bs = Inr s'"
    by (auto simp add: x split: sum.splits)
  from OnData_full_ASL_core[OF s1] obtain tr where
    tr: "core s1 = OnData_ASL p (core s)
     \<lparr>the_bar = b, trend_ok = tr, atr_ready = (atr \<noteq> None),
      atr_value = (case atr of None \<Rightarrow> 0 | Some v \<Rightarrow> v)\<rparr>" by blast
  from Cons.IH[OF r] obtain "is" where
    is': "map the_bar is = map fst bs" "core s' = run_ASL p (core s1) is" by blast
  let ?i = "\<lparr>the_bar = b, trend_ok = tr, atr_ready = (atr \<noteq> None),
      atr_value = (case atr of None \<Rightarrow> 0 | Some v \<Rightarrow> v)\<rparr>"
  have "map the_bar (?i # is) = map fst (x # bs) \<and> core s' = run_ASL p (core s) (?i # is)"
    using is' tr by (simp add: run_ASL_def x)
  then show ?case by (rule exI)
qed

lemma run_full_W2_append:
  "run_full_W2 p s (xs @ ys)
     = (case run_full_W2 p s xs of Inl e \<Rightarrow> Inl e | Inr s' \<Rightarrow> run_full_W2 p s' ys)"
  by (induction xs arbitrary: s) (auto split: sum.splits)

lemma run_full_ASL_append:
  "run_full_ASL p s (xs @ ys)
     = (case run_full_ASL p s xs of Inl e \<Rightarrow> Inl e | Inr s' \<Rightarrow> run_full_ASL p s' ys)"
  by (induction xs arbitrary: s) (auto split: sum.splits)

text \<open>
  The Williams2 run on the history of twenty bars at 100, bar by bar.  On bar 21 the
  trend gate passes (the three short averages end above the long ones, with slopes of
  13.3, 1.67 and 1.11 percent) and the startup rule buys at 140; the lips have crossed the
  teeth, but the price is more than 6 percent above the lips, so the filter is not
  consulted.  Bars 22 and 23 fall into the cooldown.  Bar 24 closes at 109, below
  \<open>140 * 0.997\<close>, and is stopped out.
\<close>

lemma warm_run:
  "run_full_W2 params_W2 (Initialize_full_W2 params_W2 hist100) flat20 = Inr in_warm"
  by (simp add: full_defs in_warm_def st_warm_def hist100_def flat20_def numeral_eq_Suc)

lemma step21: "OnData_full_W2 params_W2 in_warm (bar_of 140 140) = Inr in_bought"
  by (simp add: full_defs in_warm_def st_warm_def in_bought_def st_bought_def numeral_eq_Suc)

lemma step22: "OnData_full_W2 params_W2 in_bought (bar_of 105 105) = Inr in_cool"
  by (simp add: full_defs in_bought_def st_bought_def in_cool_def st_cool_def numeral_eq_Suc)

lemma step23: "OnData_full_W2 params_W2 in_cool (bar_of 60 60) = Inr in_open"
  by (simp add: full_defs in_cool_def st_cool_def in_open_def st_open_def numeral_eq_Suc)

lemma step24: "OnData_full_W2 params_W2 in_open (bar_of 109 109) = Inr in_sold"
  by (simp add: full_defs in_open_def st_open_def in_sold_def st_sold_def numeral_eq_Suc)

text \<open>
  Bar 25 at 108: the trend gate passes again and the startup rule buys again; the lips
  (101.51) have crossed the teeth (101.23), but the price is too far above the lips.
\<close>

lemma step25_108: "OnData_full_W2 params_W2 in_sold (bar_of 108 108) = Inr in_again"
  by (simp add: full_defs in_sold_def st_sold_def in_again_def st_again_def numeral_eq_Suc)

text \<open>
  Bar 25 at 106 instead: the gate passes, the startup rule buys, the lips (101.26) have
  crossed the teeth (101.06) and the price is within 6 percent of the lips, so the filter
  is consulted.  The last twenty prices have mean 101 and variance 166.1; the z-score of
  106 is \<open>5 / sqrt 166.1\<close>, about 0.39, neither cheap nor expensive.
\<close>

lemma window25_stats:
  "np_mean window25 = 101"
  "np_std window25 = sqrt (1661 / 10)"
  "np_std window25 \<noteq> 0"
  "0 < zscore window25 106"
  "zscore window25 106 \<le> 3 / 2"
proof -
  show m: "np_mean window25 = 101"
    by (simp add: np_mean_def window25_def numeral_eq_Suc)
  show s: "np_std window25 = sqrt (1661 / 10)"
    unfolding np_std_def m by (simp add: np_mean_def window25_def numeral_eq_Suc)
  have p: "0 < sqrt (1661 / 10 :: real)" by simp
  show "np_std window25 \<noteq> 0" unfolding s using p by simp
  show "0 < zscore window25 106" unfolding zscore_def m s using p by simp
  have "(10 / 3 :: real) = sqrt ((10 / 3)\<^sup>2)" by simp
  also have "\<dots> \<le> sqrt (1661 / 10)"
    by (rule real_sqrt_le_mono) (simp add: power2_eq_square)
  finally have "(10 / 3 :: real) \<le> sqrt (1661 / 10)" .
  then have "5 \<le> (3 / 2) * sqrt (1661 / 10 :: real)" by simp
  then show "zscore window25 106 \<le> 3 / 2"
    unfolding zscore_def m s using p by (simp add: field_simps)
qed

lemma window25_slice:
  "slice_last 20 (replicate 20 100 @ [140, 105, 60, 109, 106]) = window25"
  by (simp add: slice_last_def window25_def numeral_eq_Suc)

lemma filter_neutral_106:
  assumes "hl2s s = replicate 20 100 @ [140, 105, 60, 109, 106]" and "\<not> wait_peak_check s"
  shows "entry_price_filter params_W2 s 106 = (True, s)"
proof -
  have ne: "window25 \<noteq> []" by (simp add: window25_def)
  have z: "\<not> zscore window25 106 < - (3 / 2)" "\<not> 3 / 2 < zscore window25 106"
    using window25_stats(4,5) by simp_all
  show ?thesis
    unfolding entry_price_filter_def Let_def assms(1)
    using window25_stats(3) assms(2) ne z
    by (simp add: window25_slice params_W2_def)
qed

lemma step25_106: "OnData_full_W2 params_W2 in_sold (bar_of 106 106) = Inr in_crossed"
  by (simp add: full_defs in_sold_def st_sold_def in_crossed_def st_crossed_def
      filter_neutral_106 numeral_eq_Suc)


lemma reach_open:
  "run_full_W2 params_W2 (Initialize_full_W2 params_W2 hist100)
     (flat20 @ [bar_of 140 140, bar_of 105 105, bar_of 60 60]) = Inr in_open"
  by (simp add: run_full_W2_append warm_run step21 step22 step23)

lemma reach_sold:
  "run_full_W2 params_W2 (Initialize_full_W2 params_W2 hist100)
     (flat20 @ [bar_of 140 140, bar_of 105 105, bar_of 60 60, bar_of 109 109]) = Inr in_sold"
  by (simp add: run_full_W2_append warm_run step21 step22 step23 step24)

lemma reach_again:
  "run_full_W2 params_W2 (Initialize_full_W2 params_W2 hist100)
     (flat20 @ [bar_of 140 140, bar_of 105 105, bar_of 60 60, bar_of 109 109, bar_of 108 108])
     = Inr in_again"
  by (simp add: run_full_W2_append warm_run step21 step22 step23 step24 step25_108)

lemma reach_crossed:
  "run_full_W2 params_W2 (Initialize_full_W2 params_W2 hist100)
     (flat20 @ [bar_of 140 140, bar_of 105 105, bar_of 60 60, bar_of 109 109, bar_of 106 106])
     = Inr in_crossed"
  by (simp add: run_full_W2_append warm_run step21 step22 step23 step24 step25_106)

lemma core_in:
  "core in_bought = st_bought" "core in_open = st_open" "core in_sold = st_sold"
  "core in_again = st_again" "core in_crossed = st_crossed"
  by (simp_all add: in_bought_def in_open_def in_sold_def in_again_def in_crossed_def
      inst_of_def)


section \<open>Properties of the engines: cooldown\<close>

text \<open>
  Williams2.  The entry filter touches its own three attributes only.
\<close>

lemma filter_frame:
  "invested (snd (entry_price_filter p s h)) = invested s"
  "orders (snd (entry_price_filter p s h)) = orders s"
  "cooldown_days_remaining (snd (entry_price_filter p s h)) = cooldown_days_remaining s"
  "entryPrice (snd (entry_price_filter p s h)) = entryPrice s"
  "highestPrice (snd (entry_price_filter p s h)) = highestPrice s"
  "hl2s (snd (entry_price_filter p s h)) = hl2s s"
  "startup_check (snd (entry_price_filter p s h)) = startup_check s"
  by (simp_all add: entry_price_filter_def Let_def peak_reset_def)

text \<open>
  Williams2.  A bar on which a position is opened ends with the counter at \<open>N - 1\<close>: the
  BUY sets it to \<open>N\<close> and the end of the same bar decrements it.
\<close>

lemma check_entry_W2_invested:
  assumes "\<not> invested s" and "invested (check_entry_W2 p s b tr h j t l)"
  shows "cooldown_days_remaining (check_entry_W2 p s b tr h j t l) = cooldown_days p"
proof -
  obtain ok s2 where f: "entry_price_filter p s h = (ok, s2)" by force
  obtain ok' s2' where f': "entry_price_filter p
      ((buy_W2 p s b Startup_trending)\<lparr>wait_peak_check := False\<rparr>) h = (ok', s2')" by force
  from f have s2: "invested s2 = invested s"
      "cooldown_days_remaining s2 = cooldown_days_remaining s"
    using filter_frame(1,3)[of p s h] by simp_all
  from f' have s2': "invested s2' = True" "cooldown_days_remaining s2' = cooldown_days p"
    using filter_frame(1,3)[of p "(buy_W2 p s b Startup_trending)\<lparr>wait_peak_check := False\<rparr>" h]
    by (simp_all add: buy_W2_def)
  show ?thesis
    using assms f f' s2 s2'
    by (simp add: check_entry_W2_def Let_def buy_W2_def split: if_splits)
qed

lemma OnData_W2_buy_bar:
  assumes "\<not> invested s" and "invested (OnData_W2 p s i)"
  shows "cooldown_days_remaining (OnData_W2 p s i)
           = (if 0 < cooldown_days p then cooldown_days p - 1 else cooldown_days p)"
    and "processed p (OnData_W2 p s i)"
proof -
  let ?hl2 = "(High (the_bar i) + Low (the_bar i)) / 2"
  let ?s0 = "s\<lparr>hl2s := hl2s s @ [?hl2]\<rparr>"
  let ?s1 = "?s0\<lparr>jaw_ind := SMMA_Upd (jaw_ind ?s0) ?hl2,
      teeth_ind := SMMA_Upd (teeth_ind ?s0) ?hl2, lips_ind := SMMA_Upd (lips_ind ?s0) ?hl2\<rparr>"
  let ?j = "SMMA_next (jaw_ind ?s0) ?hl2"
  let ?t = "SMMA_next (teeth_ind ?s0) ?hl2"
  let ?l = "SMMA_next (lips_ind ?s0) ?hl2"
  let ?c = "check_entry_W2 p ?s1 (the_bar i) (trend_ok i) ?hl2 ?j ?t ?l"
  have pr: "\<not> int (length (hl2s ?s0)) < min_len p"
  proof
    assume "int (length (hl2s ?s0)) < min_len p"
    then have "OnData_W2 p s i = ?s0"
      by (simp add: OnData_W2_def update_indicators_W2_def Let_def)
    with assms show False by simp
  qed
  then have od: "OnData_W2 p s i = finish_W2 ?c ?j ?t ?l"
    using assms(1) by (simp add: OnData_W2_def update_indicators_W2_def trade_W2_def Let_def)
  have fin: "\<And>x. invested (finish_W2 x ?j ?t ?l) = invested x"
    "\<And>x. hl2s (finish_W2 x ?j ?t ?l) = hl2s x"
    "\<And>x. cooldown_days_remaining (finish_W2 x ?j ?t ?l)
       = (if 0 < cooldown_days_remaining x then cooldown_days_remaining x - 1
          else cooldown_days_remaining x)"
    by (simp_all add: finish_W2_def Let_def)
  from assms(2) have inv: "invested ?c" unfolding od fin .
  have ni: "\<not> invested ?s1" using assms(1) by simp
  from check_entry_W2_invested[OF ni inv]
  show "cooldown_days_remaining (OnData_W2 p s i)
           = (if 0 < cooldown_days p then cooldown_days p - 1 else cooldown_days p)"
    unfolding od fin by simp
  have "length (hl2s (OnData_W2 p s i)) \<ge> length (hl2s ?s0)"
  proof -
    obtain ok s2 where f: "entry_price_filter p ?s1 ?hl2 = (ok, s2)" by force
    obtain ok' s2' where f': "entry_price_filter p
        ((buy_W2 p ?s1 (the_bar i) Startup_trending)\<lparr>wait_peak_check := False\<rparr>) ?hl2
        = (ok', s2')" by force
    from f have a: "hl2s s2 = hl2s ?s0" using filter_frame(6)[of p ?s1 ?hl2] by simp
    from f' have b: "hl2s s2' = hl2s ?s0"
      using filter_frame(6)[of p
          "(buy_W2 p ?s1 (the_bar i) Startup_trending)\<lparr>wait_peak_check := False\<rparr>" ?hl2]
      by (simp add: buy_W2_def)
    have "hl2s ?c = hl2s ?s0"
      using f f' a b by (simp add: check_entry_W2_def Let_def buy_W2_def)
    then show ?thesis unfolding od fin by simp
  qed
  with pr show "processed p (OnData_W2 p s i)"
    by (simp add: processed_def)
qed

text \<open>
  Williams2.  While a position is open and the counter is not zero, a bar changes neither
  the orders nor the position, and a processed bar decrements the counter.
\<close>

lemma OnData_W2_cooldown_bar:
  assumes "invested s" and "cooldown_days_remaining s \<noteq> 0"
  shows "orders (OnData_W2 p s i) = orders s \<and> invested (OnData_W2 p s i)
     \<and> entryPrice (OnData_W2 p s i) = entryPrice s
     \<and> highestPrice (OnData_W2 p s i) = highestPrice s
     \<and> wait_peak_check (OnData_W2 p s i) = wait_peak_check s"
  using assms
  by (auto simp: OnData_W2_def update_indicators_W2_def trade_W2_def finish_W2_def Let_def)

lemma OnData_W2_cooldown_dec:
  assumes "invested s" and "0 < cooldown_days_remaining s" and "processed p s"
  shows "cooldown_days_remaining (OnData_W2 p s i) = cooldown_days_remaining s - 1
     \<and> processed p (OnData_W2 p s i)"
  using assms
  by (auto simp: OnData_W2_def update_indicators_W2_def trade_W2_def finish_W2_def Let_def
      processed_def)

lemma run_W2_cooldown:
  assumes "invested s" and "processed p s"
    and "int (length is) \<le> cooldown_days_remaining s"
  shows "orders (run_W2 p s is) = orders s \<and> invested (run_W2 p s is)
     \<and> entryPrice (run_W2 p s is) = entryPrice s
     \<and> highestPrice (run_W2 p s is) = highestPrice s
     \<and> cooldown_days_remaining (run_W2 p s is) = cooldown_days_remaining s - int (length is)"
  using assms
proof (induction "is" arbitrary: s)
  case Nil
  then show ?case by (simp add: run_W2_def)
next
  case (Cons i "is")
  from Cons.prems have pos: "0 < cooldown_days_remaining s" by simp
  then have nz: "cooldown_days_remaining s \<noteq> 0" by simp
  note a = OnData_W2_cooldown_bar[OF Cons.prems(1) nz, of p i]
  note b = OnData_W2_cooldown_dec[OF Cons.prems(1) pos Cons.prems(2), of i]
  have c: "int (length is) \<le> cooldown_days_remaining (OnData_W2 p s i)"
    using b Cons.prems(3) by simp
  from a b have "invested (OnData_W2 p s i)" and "processed p (OnData_W2 p s i)"
    by simp_all
  from Cons.IH[OF this c] a b show ?case
    by (simp add: run_W2_def)
qed

text \<open>
  Williams2, the whole cooldown: after a bar that opened a position with cooldown
  \<open>N \<ge> 1\<close>, the next \<open>N - 1\<close> bars leave the orders alone whatever the prices, and the
  counter is then zero, so the bar after them evaluates the exits.
\<close>

lemma W2_cooldown_after_buy:
  assumes "\<not> invested s" and "invested (OnData_W2 p s i)" and "1 \<le> cooldown_days p"
    and "int (length is) = cooldown_days p - 1"
  shows "orders (run_W2 p (OnData_W2 p s i) is) = orders (OnData_W2 p s i)"
    and "invested (run_W2 p (OnData_W2 p s i) is)"
    and "cooldown_days_remaining (run_W2 p (OnData_W2 p s i) is) = 0"
proof -
  have c: "cooldown_days_remaining (OnData_W2 p s i) = cooldown_days p - 1"
    using OnData_W2_buy_bar(1)[OF assms(1,2)] assms(3) by simp
  have pr: "processed p (OnData_W2 p s i)" by (rule OnData_W2_buy_bar(2)[OF assms(1,2)])
  have le: "int (length is) \<le> cooldown_days_remaining (OnData_W2 p s i)"
    using c assms(4) by simp
  note r = run_W2_cooldown[OF assms(2) pr le]
  from r show "orders (run_W2 p (OnData_W2 p s i) is) = orders (OnData_W2 p s i)" by simp
  from r show "invested (run_W2 p (OnData_W2 p s i) is)" by simp
  from r c assms(4) show "cooldown_days_remaining (run_W2 p (OnData_W2 p s i) is) = 0" by simp
qed

text \<open>
  The ATR-stop variant.  The counter is decremented only in the branch taken when no
  position is open, and \<open>check_exit\<close> is called only when it is zero: an open position with
  a non-zero counter is never left, whatever the bars.
\<close>

lemma OnData_ASL_locked:
  assumes "invested s" and "cooldown_days_remaining s \<noteq> 0"
  shows "orders (OnData_ASL p s i) = orders s \<and> invested (OnData_ASL p s i)
     \<and> cooldown_days_remaining (OnData_ASL p s i) = cooldown_days_remaining s"
  using assms by (simp add: OnData_ASL_def Let_def)

lemma run_ASL_locked:
  assumes "invested s" and "cooldown_days_remaining s \<noteq> 0"
  shows "orders (run_ASL p s is) = orders s \<and> invested (run_ASL p s is)
     \<and> cooldown_days_remaining (run_ASL p s is) = cooldown_days_remaining s"
  using assms
proof (induction "is" arbitrary: s)
  case Nil
  then show ?case by (simp add: run_ASL_def)
next
  case (Cons i "is")
  note a = OnData_ASL_locked[OF Cons.prems, of p i]
  from a Cons.prems have "invested (OnData_ASL p s i)"
    and "cooldown_days_remaining (OnData_ASL p s i) \<noteq> 0"
    by simp_all
  from Cons.IH[OF this] a show ?case by (simp add: run_ASL_def)
qed

text \<open>
  The same for the complete handler, which cannot raise while a position is open: the
  trend gate is computed in \<open>check_entry\<close> only.
\<close>

lemma OnData_full_ASL_locked:
  assumes "invested (core s)" and "cooldown_days_remaining (core s) \<noteq> 0"
  shows "\<exists>s'. OnData_full_ASL p s b atr = Inr s' \<and> orders (core s') = orders (core s)
     \<and> invested (core s')
     \<and> cooldown_days_remaining (core s') = cooldown_days_remaining (core s)"
proof (cases "\<not> SMMA_Ready (jaw_ind (core s)) \<or> \<not> SMMA_Ready (teeth_ind (core s))
    \<or> \<not> SMMA_Ready (lips_ind (core s)) \<or> atr = None")
  case True
  then have "OnData_full_ASL p s b atr = Inr s"
    by (auto simp add: OnData_full_ASL_def Let_def)
  with assms show ?thesis by simp
next
  case False
  let ?i = "\<lparr>the_bar = b, trend_ok = False, atr_ready = (atr \<noteq> None),
               atr_value = (case atr of None \<Rightarrow> 0 | Some v \<Rightarrow> v)\<rparr>"
  from False assms(1) obtain ls ts where
    "OnData_full_ASL p s b atr
       = Inr \<lparr>core = OnData_ASL p (core s) ?i, lips_hist = ls, teeth_hist = ts\<rparr>"
    by (auto simp add: OnData_full_ASL_def Let_def)
  with OnData_ASL_locked[OF assms, of p ?i] show ?thesis by simp
qed

lemma run_full_ASL_locked:
  assumes "invested (core s)" and "cooldown_days_remaining (core s) \<noteq> 0"
  shows "position_of (run_full_ASL p s bs)
     = Inr (orders (core s), True, cooldown_days_remaining (core s))"
  using assms
proof (induction bs arbitrary: s)
  case Nil
  then show ?case by (simp add: position_of_def)
next
  case (Cons x bs)
  obtain b atr where x: "x = (b, atr)" by (cases x)
  from OnData_full_ASL_locked[OF Cons.prems, of p b atr] obtain s' where
    s': "OnData_full_ASL p s b atr = Inr s'" "orders (core s') = orders (core s)"
    "invested (core s')" "cooldown_days_remaining (core s') = cooldown_days_remaining (core s)"
    by blast
  from s'(3,4) Cons.prems(2) have "cooldown_days_remaining (core s') \<noteq> 0" by simp
  from Cons.IH[OF s'(3) this] s' show ?case by (simp add: x)
qed

text \<open>Bars that arrive while the ATR is not ready are skipped.\<close>

lemma run_full_ASL_quiet: "run_full_ASL p s (replicate n (b, None)) = Inr s"
  by (induction n) (simp_all add: OnData_full_ASL_def Let_def)

text \<open>
  On the history of twenty bars at 100, a first bar at 140 passes the trend gate (the
  short averages of price, lips and teeth end above the long ones, with slopes of 13.3,
  2.67 and 1.67 percent), and the startup rule buys, whatever the value of the ATR.
\<close>

lemma asl_buy_bar:
  "\<exists>s'. OnData_full_ASL params_ASL (Initialize_full_ASL params_ASL hist100)
           (bar_of 140 140) (Some a) = Inr s'
     \<and> orders (core s') = [BUY Startup_trending] \<and> invested (core s')
     \<and> cooldown_days_remaining (core s') = 1"
  by (simp add: asl_defs numeral_eq_Suc)

lemma asl_stuck:
  "position_of (run_full_ASL params_ASL (Initialize_full_ASL params_ASL hist100)
       (asl_quiet @ (bar_of 140 140, Some a) # bs))
     = Inr ([BUY Startup_trending], True, 1)"
proof -
  obtain s' where s': "OnData_full_ASL params_ASL (Initialize_full_ASL params_ASL hist100)
       (bar_of 140 140) (Some a) = Inr s'"
     "orders (core s') = [BUY Startup_trending]" "invested (core s')"
     "cooldown_days_remaining (core s') = 1"
    using asl_buy_bar[of a] by blast
  have nz: "cooldown_days_remaining (core s') \<noteq> 0" using s'(4) by simp
  show ?thesis
    using run_full_ASL_locked[OF s'(3) nz, of params_ASL bs] s'
    by (simp add: run_full_ASL_append asl_quiet_def run_full_ASL_quiet)
qed

lemma asl_contrast:
  "position_of (run_full_ASL (params_ASL\<lparr>cooldown_days := 0\<rparr>)
       (Initialize_full_ASL params_ASL hist100)
       (asl_quiet @ (bar_of 140 140, Some 20) # asl_bars))
     = Inr ([BUY Startup_trending, SELL ATR_stop], False, 0)"
  by (simp add: run_full_ASL_append asl_quiet_def run_full_ASL_quiet asl_bars_def
      position_of_def asl_defs numeral_eq_Suc)

text \<open>
  Claim C3, at the failing input.  The ATR-stop variant runs with its own parameters
  (cooldown 1) on a history of twenty bars at 100.  The live bars that arrive before the
  ATR is ready are skipped; the first bar after them, at 140, passes the trend gate and is
  bought on the startup rule.  From then on no SELL is placed and the counter reads 1,
  whatever bars and ATR values follow: so for three bars closing at 50 with the ATR at
  20, far below the ATR stop \<open>140 - 0.2 * 20\<close>.  With a cooldown of 0 the same bars are
  sold at once, so it is the counter that holds the exit back.
\<close>

theorem asl_cooldown_never_expires:
  "position_of (run_full_ASL params_ASL (Initialize_full_ASL params_ASL hist100)
       (asl_quiet @ (bar_of 140 140, Some a) # bs))
     = Inr ([BUY Startup_trending], True, 1)
   \<and> position_of (run_full_ASL params_ASL (Initialize_full_ASL params_ASL hist100)
       (asl_quiet @ (bar_of 140 140, Some 20) # asl_bars))
     = Inr ([BUY Startup_trending], True, 1)
   \<and> position_of (run_full_ASL (params_ASL\<lparr>cooldown_days := 0\<rparr>)
       (Initialize_full_ASL params_ASL hist100)
       (asl_quiet @ (bar_of 140 140, Some 20) # asl_bars))
     = Inr ([BUY Startup_trending, SELL ATR_stop], False, 0)"
  using asl_stuck[of a bs] asl_stuck[of 20 asl_bars] asl_contrast by simp


section \<open>Properties of the engines: the trailing high\<close>













section \<open>Properties of the engines: the startup rule\<close>

text \<open>
  The ATR-stop variant: no step of the handler increases \<open>startup_count\<close>, because the
  startup buy disarms the rule in the same breath.
\<close>

lemma check_entry_ASL_count:
  "startup_count (check_entry_ASL p s b tr j t l) = startup_count s"
  by (simp add: check_entry_ASL_def startup_count_def buy_ASL_def)

lemma check_exit_ASL_count:
  "startup_count (check_exit_ASL p s i j t l) = startup_count s"
  by (simp add: check_exit_ASL_def startup_count_def sell_ASL_def Let_def split: option.splits)

lemma OnData_ASL_count: "startup_count (OnData_ASL p s i) = startup_count s"
proof -
  have upd: "\<And>s f g h k.
      startup_count (s\<lparr>jaw_ind := f, teeth_ind := g, lips_ind := h, hl2s := k\<rparr>)
        = startup_count s"
    by (simp add: startup_count_def)
  have upd2: "\<And>s f g h.
      startup_count (s\<lparr>jaw_prev := f, teeth_prev := g, lips_prev := h\<rparr>) = startup_count s"
    by (simp add: startup_count_def)
  have upd3: "\<And>s c. startup_count (s\<lparr>cooldown_days_remaining := c\<rparr>) = startup_count s"
    by (simp add: startup_count_def)
  show ?thesis
    unfolding OnData_ASL_def Let_def
    by (simp add: upd upd2 upd3 check_entry_ASL_count check_exit_ASL_count)
qed

lemma run_ASL_count: "startup_count (run_ASL p s is) = startup_count s"
  by (induction "is" arbitrary: s) (simp_all add: run_ASL_def OnData_ASL_count)

lemma asl_startup_once:
  "count_list (orders (run_ASL p (Initialize_ASL p hist) is)) (BUY Startup_trending) \<le> 1"
proof -
  have "startup_count (Initialize_ASL p hist) = 1"
    by (simp add: startup_count_def Initialize_ASL_def)
  with run_ASL_count[of p "Initialize_ASL p hist" "is"] show ?thesis
    by (simp add: startup_count_def split: if_splits)
qed

text \<open>Williams2: nothing ever writes \<open>startup_check\<close>.\<close>

lemma check_entry_W2_startup_kept:
  "startup_check (check_entry_W2 p s b tr h j t l) = startup_check s"
proof -
  obtain ok s2 where f: "entry_price_filter p s h = (ok, s2)" by force
  obtain ok' s2' where f': "entry_price_filter p
      ((buy_W2 p s b Startup_trending)\<lparr>wait_peak_check := False\<rparr>) h = (ok', s2')" by force
  from f have a: "startup_check s2 = startup_check s"
    using filter_frame(7)[of p s h] by simp
  from f' have b: "startup_check s2' = startup_check s"
    using filter_frame(7)[of p "(buy_W2 p s b Startup_trending)\<lparr>wait_peak_check := False\<rparr>" h]
    by (simp add: buy_W2_def)
  show ?thesis
    using f f' a b by (simp add: check_entry_W2_def Let_def buy_W2_def)
qed

lemma check_exit_W2_startup_kept:
  "startup_check (check_exit_W2 p s b j t l) = startup_check s"
  by (simp add: check_exit_W2_def Let_def sell_W2_def split: option.splits)

lemma OnData_W2_startup_kept: "startup_check (OnData_W2 p s i) = startup_check s"
  by (simp add: OnData_W2_def update_indicators_W2_def trade_W2_def finish_W2_def Let_def
      check_entry_W2_startup_kept check_exit_W2_startup_kept)

lemma run_W2_startup_kept: "startup_check (run_W2 p s is) = startup_check s"
  by (induction "is" arbitrary: s) (simp_all add: run_W2_def OnData_W2_startup_kept)

text \<open>
  Both facts hold of the runs of the complete handlers, which are runs of the handlers
  above with the flags the trend gate computes.
\<close>

lemma run_full_ASL_startup_once:
  assumes "run_full_ASL p (Initialize_full_ASL p hist) bs = Inr s'"
  shows "count_list (orders (core s')) (BUY Startup_trending) \<le> 1"
proof -
  from run_full_ASL_core[OF assms] obtain "is" where
    "core s' = run_ASL p (core (Initialize_full_ASL p hist)) is" by blast
  then have "core s' = run_ASL p (Initialize_ASL p hist) is"
    by (simp add: Initialize_full_ASL_def)
  with asl_startup_once[of p hist "is"] show ?thesis by simp
qed

lemma run_full_W2_startup_kept:
  assumes "run_full_W2 p (Initialize_full_W2 p hist) bs = Inr s'"
  shows "startup_check (core s')"
proof -
  from run_full_W2_core[OF assms] obtain "is" where
    "core s' = run_W2 p (core (Initialize_full_W2 p hist)) is" by blast
  then have "core s' = run_W2 p (Initialize_W2 p hist) is"
    by (simp add: Initialize_full_W2_def)
  then show ?thesis
    by (simp add: run_W2_startup_kept Initialize_W2_def Let_def)
qed

text \<open>
  Williams2: on a processed bar with no position, the armed rule and a passing trend gate,
  the startup BUY is placed (the cross entry may follow it on the same bar).
\<close>

lemma OnData_W2_startup_fires:
  assumes "\<not> invested s" and "startup_check s" and "trend_ok i" and "processed p s"
  shows "orders (OnData_W2 p s i) = orders s @ [BUY Startup_trending]
       \<or> orders (OnData_W2 p s i) = orders s @ [BUY Startup_trending, BUY Cross_filter]"
proof -
  let ?hl2 = "(High (the_bar i) + Low (the_bar i)) / 2"
  let ?s0 = "s\<lparr>hl2s := hl2s s @ [?hl2]\<rparr>"
  let ?s1 = "?s0\<lparr>jaw_ind := SMMA_Upd (jaw_ind ?s0) ?hl2,
      teeth_ind := SMMA_Upd (teeth_ind ?s0) ?hl2, lips_ind := SMMA_Upd (lips_ind ?s0) ?hl2\<rparr>"
  let ?j = "SMMA_next (jaw_ind ?s0) ?hl2"
  let ?t = "SMMA_next (teeth_ind ?s0) ?hl2"
  let ?l = "SMMA_next (lips_ind ?s0) ?hl2"
  let ?sb = "(buy_W2 p ?s1 (the_bar i) Startup_trending)\<lparr>wait_peak_check := False\<rparr>"
  let ?c = "check_entry_W2 p ?s1 (the_bar i) True ?hl2 ?j ?t ?l"
  have od: "OnData_W2 p s i = finish_W2 ?c ?j ?t ?l"
    using assms
    by (simp add: OnData_W2_def update_indicators_W2_def trade_W2_def Let_def processed_def)
  have fin: "\<And>x. orders (finish_W2 x ?j ?t ?l) = orders x"
    by (simp add: finish_W2_def Let_def)
  obtain ok s2 where f: "entry_price_filter p ?sb ?hl2 = (ok, s2)" by force
  then have o2: "orders s2 = orders s @ [BUY Startup_trending]"
    using filter_frame(2)[of p ?sb ?hl2] by (simp add: buy_W2_def)
  have "orders ?c = orders s @ [BUY Startup_trending]
      \<or> orders ?c = orders s @ [BUY Startup_trending, BUY Cross_filter]"
    using assms(1,2) f o2
    by (simp add: check_entry_W2_def Let_def buy_W2_def)
  then show ?thesis unfolding od fin .
qed

text \<open>
  Claim C8, as amended.  In the ATR-stop variant the startup rule disarms itself when it
  fires, and no run from \<open>Initialize\<close> contains two startup buys.  In Williams2 the
  disarming line is commented out: \<open>startup_check\<close> is true in every state of every run, and
  the rule places a startup BUY on every processed bar that finds no position open and
  the trend gate passing, so a run can contain any number of them.
\<close>

theorem startup_rule_arming:
  "count_list (orders (run_ASL p (Initialize_ASL p hist) is)) (BUY Startup_trending) \<le> 1
   \<and> startup_check (run_W2 p (Initialize_W2 p hist) is)
   \<and> (\<not> invested s \<and> startup_check s \<and> trend_ok i \<and> processed p s \<longrightarrow>
        orders (OnData_W2 p s i) = orders s @ [BUY Startup_trending]
        \<or> orders (OnData_W2 p s i) = orders s @ [BUY Startup_trending, BUY Cross_filter])"
proof (intro conjI impI)
  show "count_list (orders (run_ASL p (Initialize_ASL p hist) is)) (BUY Startup_trending) \<le> 1"
    by (rule asl_startup_once)
next
  show "startup_check (run_W2 p (Initialize_W2 p hist) is)"
    by (simp add: run_W2_startup_kept Initialize_W2_def Let_def)
next
  assume "\<not> invested s \<and> startup_check s \<and> trend_ok i \<and> processed p s"
  then show "orders (OnData_W2 p s i) = orders s @ [BUY Startup_trending]
        \<or> orders (OnData_W2 p s i) = orders s @ [BUY Startup_trending, BUY Cross_filter]"
    using OnData_W2_startup_fires[of s i p] by blast
qed

text \<open>
  The witness: the state of the run on the history of twenty bars at 100 after its
  SELL, given bar 25 at 108, on which the trend gate computes true.
\<close>

theorem startup_rule_arming_witness:
  "run_full_W2 params_W2 (Initialize_full_W2 params_W2 hist100)
     (flat20 @ [bar_of 140 140, bar_of 105 105, bar_of 60 60, bar_of 109 109]) = Inr in_sold
   \<and> core in_sold = st_sold
   \<and> \<not> invested st_sold \<and> startup_check st_sold \<and> trend_ok (feed_of (bar_of 108 108) True)
   \<and> processed params_W2 st_sold
   \<and> (orders (OnData_W2 params_W2 st_sold (feed_of (bar_of 108 108) True))
         = orders st_sold @ [BUY Startup_trending]
       \<or> orders (OnData_W2 params_W2 st_sold (feed_of (bar_of 108 108) True))
         = orders st_sold @ [BUY Startup_trending, BUY Cross_filter])
   \<and> orders (OnData_W2 params_W2 st_sold (feed_of (bar_of 108 108) True))
         = [BUY Startup_trending, SELL Trailing_stop, BUY Startup_trending]
   \<and> compute_trend_flag_W2 (hl2s st_sold @ [108])
         (lips_hist in_sold @ [Num (51971 / 512)])
         (teeth_hist in_sold @ [Num (6297175 / 62208)]) = Inr True"
proof -
  have h: "\<not> invested st_sold" "startup_check st_sold"
    "trend_ok (feed_of (bar_of 108 108) True)" "processed params_W2 st_sold"
    by (simp_all add: st_sold_def processed_def min_len_def params_W2_def feed_of_def)
  have a: "orders (OnData_W2 params_W2 st_sold (feed_of (bar_of 108 108) True))
         = orders st_sold @ [BUY Startup_trending]
       \<or> orders (OnData_W2 params_W2 st_sold (feed_of (bar_of 108 108) True))
         = orders st_sold @ [BUY Startup_trending, BUY Cross_filter]"
    using h startup_rule_arming[of params_W2 "[]" "[]" st_sold "feed_of (bar_of 108 108) True"]
    by blast
  have b: "orders (OnData_W2 params_W2 st_sold (feed_of (bar_of 108 108) True))
         = [BUY Startup_trending, SELL Trailing_stop, BUY Startup_trending]"
    by (simp add: st_sold_def w2_defs numeral_eq_Suc)
  have c: "compute_trend_flag_W2 (hl2s st_sold @ [108])
         (lips_hist in_sold @ [Num (51971 / 512)])
         (teeth_hist in_sold @ [Num (6297175 / 62208)]) = Inr True"
    by (simp add: st_sold_def in_sold_def inst_of_def trend_defs numeral_eq_Suc)
  from reach_sold core_in(3) h a b c show ?thesis by blast
qed

text \<open>
  Claim C8 as stated fails on Williams2.  The run from \<open>Initialize\<close> with the source's
  parameters, on a history of twenty bars at 100 and twenty live bars at 100, buys on the
  startup rule on bar 21 (at 140), is stopped out on bar 24 (at 109, after bars at 105 and
  60) and buys on the startup rule again on bar 25 (at 108); the trend gate is computed
  from the prices on every bar that finds no position open.
\<close>

theorem startup_twice_counterexample:
  "run_full_W2 params_W2 (Initialize_full_W2 params_W2 hist100)
     (flat20 @ [bar_of 140 140, bar_of 105 105, bar_of 60 60, bar_of 109 109, bar_of 108 108])
     = Inr in_again
   \<and> orders (core in_again)
       = [BUY Startup_trending, SELL Trailing_stop, BUY Startup_trending]
   \<and> count_list (orders (core in_again)) (BUY Startup_trending) = 2"
proof -
  have o: "orders (core in_again)
       = [BUY Startup_trending, SELL Trailing_stop, BUY Startup_trending]"
    by (simp add: core_in st_again_def)
  have c: "count_list (orders (core in_again)) (BUY Startup_trending) = 2"
    unfolding o by simp
  from reach_again o c show ?thesis by blast
qed


section \<open>Properties of the engines: the entry filter\<close>

text \<open>
  On a cheap value the filter returns true at once, before it reads or writes any of its
  attributes.
\<close>

lemma filter_cheap:
  assumes "use_entry_price_filter p"
    and "price_filter_lookback p \<le> int (length (hl2s s))"
    and "slice_last (price_filter_lookback p) (hl2s s) \<noteq> []"
    and "np_std (slice_last (price_filter_lookback p) (hl2s s)) \<noteq> 0"
    and "zscore (slice_last (price_filter_lookback p) (hl2s s)) h < - price_filter_k p"
  shows "entry_price_filter p s h = (True, s)"
  using assms by (simp add: entry_price_filter_def Let_def)

text \<open>
  When the filter lets a cross entry through, \<open>check_entry\<close> buys and clears the waiting
  flag itself.  The state the filter sees is the one left by the startup step.
\<close>

lemma check_entry_W2_clears:
  assumes "cross_up (lips_prev s) (teeth_prev s) l t" and "lips_price_gap_ok p l h"
    and "fst (entry_price_filter p (if startup_check s \<and> \<not> invested s
            then (buy_W2 p s b Startup_trending)\<lparr>wait_peak_check := False\<rparr> else s) h)"
  shows "\<not> wait_peak_check (check_entry_W2 p s b True h j t l)
    \<and> last (orders (check_entry_W2 p s b True h j t l)) = BUY Cross_filter"
proof -
  let ?s1 = "if startup_check s \<and> \<not> invested s
            then (buy_W2 p s b Startup_trending)\<lparr>wait_peak_check := False\<rparr> else s"
  obtain ok s2 where f: "entry_price_filter p ?s1 h = (ok, s2)" by force
  with assms(3) have ok by simp
  have c: "cross_up (lips_prev ?s1) (teeth_prev ?s1) l t"
    using assms(1) by (simp add: buy_W2_def)
  have ce: "check_entry_W2 p s b True h j t l
      = (buy_W2 p s2 b Cross_filter)\<lparr>wait_peak_check := False\<rparr>"
    using c assms(2) f \<open>ok\<close>
    by (auto simp add: check_entry_W2_def Let_def)
  show ?thesis unfolding ce by (simp add: buy_W2_def)
qed

lemma st_waiting_window:
  "slice_last 20 (hl2s st_waiting) = 80 # replicate 18 100 @ [80]"
  "np_mean (80 # replicate 18 100 @ [80]) = 98"
  "np_std (80 # replicate 18 100 @ [80]) = 6"
proof -
  have s36: "sqrt 36 = 6" using real_sqrt_abs[of 6] by simp
  show "slice_last 20 (hl2s st_waiting) = 80 # replicate 18 100 @ [80]"
    by (simp add: st_waiting_def slice_last_def)
  show m: "np_mean (80 # replicate 18 100 @ [80]) = 98"
    by (simp add: np_mean_def numeral_eq_Suc)
  show "np_std (80 # replicate 18 100 @ [80]) = 6"
    unfolding np_std_def m by (simp add: np_mean_def numeral_eq_Suc s36)
qed

text \<open>
  Claim C5, as amended.  With the filter enabled, enough history and a non-zero standard
  deviation, a value whose z-score is below \<open>-k\<close> passes at once and the filter leaves
  every attribute as it was, the waiting flag included.  The flag is cleared by the
  caller: whenever the filter lets a cross entry through, \<open>check_entry\<close> buys and sets
  \<open>wait_peak_check\<close> to false.
\<close>

theorem filter_cheap_passes:
  "(use_entry_price_filter p \<and> price_filter_lookback p \<le> int (length (hl2s s))
      \<and> slice_last (price_filter_lookback p) (hl2s s) \<noteq> []
      \<and> np_std (slice_last (price_filter_lookback p) (hl2s s)) \<noteq> 0
      \<and> zscore (slice_last (price_filter_lookback p) (hl2s s)) h < - price_filter_k p
    \<longrightarrow> entry_price_filter p s h = (True, s))
   \<and> (cross_up (lips_prev s) (teeth_prev s) l t \<and> lips_price_gap_ok p l h
      \<and> fst (entry_price_filter p (if startup_check s \<and> \<not> invested s
            then (buy_W2 p s b Startup_trending)\<lparr>wait_peak_check := False\<rparr> else s) h)
    \<longrightarrow> \<not> wait_peak_check (check_entry_W2 p s b True h j t l)
        \<and> last (orders (check_entry_W2 p s b True h j t l)) = BUY Cross_filter)"
  using filter_cheap[of p s h] check_entry_W2_clears[of s l t p h b j] by blast

lemmas st_waiting_facts =
  st_waiting_window zscore_def params_W2_def st_waiting_def

theorem filter_cheap_passes_witness:
  "use_entry_price_filter params_W2
   \<and> price_filter_lookback params_W2 \<le> int (length (hl2s st_waiting))
   \<and> slice_last (price_filter_lookback params_W2) (hl2s st_waiting) \<noteq> []
   \<and> np_std (slice_last (price_filter_lookback params_W2) (hl2s st_waiting)) \<noteq> 0
   \<and> zscore (slice_last (price_filter_lookback params_W2) (hl2s st_waiting)) 80
       < - price_filter_k params_W2
   \<and> entry_price_filter params_W2 st_waiting 80 = (True, st_waiting)
   \<and> cross_up (Some 100) (Some 100) 102 101 \<and> lips_price_gap_ok params_W2 102 80
   \<and> fst (entry_price_filter params_W2
        (st_waiting\<lparr>lips_prev := Some 100, teeth_prev := Some 100, startup_check := False\<rparr>) 80)
   \<and> \<not> wait_peak_check (check_entry_W2 params_W2
        (st_waiting\<lparr>lips_prev := Some 100, teeth_prev := Some 100, startup_check := False\<rparr>)
        \<lparr>High = 85, Low = 75, Close = 80\<rparr> True 80 100 101 102)"
proof -
  have w: "slice_last (price_filter_lookback params_W2) (hl2s st_waiting)
      = 80 # replicate 18 100 @ [80]"
    using st_waiting_window(1) by (simp add: params_W2_def)
  have h: "use_entry_price_filter params_W2"
    "price_filter_lookback params_W2 \<le> int (length (hl2s st_waiting))"
    "slice_last (price_filter_lookback params_W2) (hl2s st_waiting) \<noteq> []"
    "np_std (slice_last (price_filter_lookback params_W2) (hl2s st_waiting)) \<noteq> 0"
    "zscore (slice_last (price_filter_lookback params_W2) (hl2s st_waiting)) 80
       < - price_filter_k params_W2"
    unfolding w by (simp_all add: st_waiting_facts)
  have a: "entry_price_filter params_W2 st_waiting 80 = (True, st_waiting)"
    using h filter_cheap_passes[of params_W2 st_waiting 80] by blast
  let ?s = "st_waiting\<lparr>lips_prev := Some 100, teeth_prev := Some 100, startup_check := False\<rparr>"
  have g: "cross_up (Some 100) (Some 100) 102 101" "lips_price_gap_ok params_W2 102 80"
    by (simp_all add: cross_up_def lips_price_gap_ok_def params_W2_def)
  have hl: "hl2s ?s = hl2s st_waiting" by simp
  have f: "entry_price_filter params_W2 ?s 80 = (True, ?s)"
    using h filter_cheap_passes[of params_W2 ?s 80] unfolding hl by blast
  then have f1: "fst (entry_price_filter params_W2 ?s 80)" by simp
  have f2: "fst (entry_price_filter params_W2 (if startup_check ?s \<and> \<not> invested ?s
            then (buy_W2 params_W2 ?s \<lparr>High = 85, Low = 75, Close = 80\<rparr> Startup_trending)
                   \<lparr>wait_peak_check := False\<rparr> else ?s) 80)"
    using f1 by simp
  have g': "cross_up (lips_prev ?s) (teeth_prev ?s) 102 101" using g(1) by simp
  have b: "\<not> wait_peak_check (check_entry_W2 params_W2 ?s
        \<lparr>High = 85, Low = 75, Close = 80\<rparr> True 80 100 101 102)"
    using g' g(2) f2
      filter_cheap_passes[of params_W2 ?s 80 102 101 "\<lparr>High = 85, Low = 75, Close = 80\<rparr>" 100]
    by blast
  from h a g f1 b show ?thesis by blast
qed

text \<open>
  Claim C5 as stated fails in its second half: evaluated in a waiting state on a cheap
  value (z-score \<open>-3\<close>, with \<open>k = 1.5\<close>), the filter passes and is still waiting
  afterwards, with its reference price and day count untouched.
\<close>

theorem filter_cheap_keeps_waiting_counterexample:
  "zscore (slice_last (price_filter_lookback params_W2) (hl2s st_waiting)) 80 = - 3
   \<and> wait_peak_check st_waiting
   \<and> fst (entry_price_filter params_W2 st_waiting 80)
   \<and> wait_peak_check (snd (entry_price_filter params_W2 st_waiting 80))
   \<and> peak_day_hl2 (snd (entry_price_filter params_W2 st_waiting 80)) = Some 120
   \<and> peak_check_days (snd (entry_price_filter params_W2 st_waiting 80)) = 1"
proof -
  have w: "slice_last (price_filter_lookback params_W2) (hl2s st_waiting)
      = 80 # replicate 18 100 @ [80]"
    using st_waiting_window(1) by (simp add: params_W2_def)
  have z: "zscore (slice_last (price_filter_lookback params_W2) (hl2s st_waiting)) 80 = - 3"
    unfolding w by (simp add: zscore_def st_waiting_window)
  have e: "entry_price_filter params_W2 st_waiting 80 = (True, st_waiting)"
    using w z st_waiting_window(3)
    by (simp add: entry_price_filter_def Let_def params_W2_def st_waiting_def)
  show ?thesis unfolding e using z by (simp add: st_waiting_def)
qed

section \<open>Properties of the engines: the waiting flag after an exit\<close>

lemma check_exit_W2_sell_flag:
  assumes "orders (check_exit_W2 p s b j t l) \<noteq> orders s"
  shows "wait_peak_check (check_exit_W2 p s b j t l)
     \<and> peak_day_hl2 (check_exit_W2 p s b j t l) = peak_day_hl2 s
     \<and> peak_check_days (check_exit_W2 p s b j t l) = peak_check_days s
     \<and> (\<exists>r. orders (check_exit_W2 p s b j t l) = orders s @ [SELL r])"
  using assms
  by (auto simp: check_exit_W2_def Let_def sell_W2_def split: option.splits if_splits)

text \<open>
  The already-waiting branch without a reference price: no rollover can be confirmed, so
  the filter blocks until the day count reaches \<open>max_peak_days\<close> and then passes.
\<close>

lemma filter_waiting_no_ref:
  assumes "use_entry_price_filter p"
    and "price_filter_lookback p \<le> int (length (hl2s s))"
    and "wait_peak_check s" and "peak_day_hl2 s = None"
    and "slice_last (price_filter_lookback p) (hl2s s) \<noteq> []"
    and "np_std (slice_last (price_filter_lookback p) (hl2s s)) \<noteq> 0"
    and "\<not> zscore (slice_last (price_filter_lookback p) (hl2s s)) h < - price_filter_k p"
  shows "entry_price_filter p s h
     = (if max_peak_days p \<le> peak_check_days s + 1
        then (True, s\<lparr>peak_check_days := 0, wait_peak_check := False\<rparr>)
        else (False, s\<lparr>peak_check_days := peak_check_days s + 1\<rparr>))"
  using assms by (simp add: entry_price_filter_def Let_def peak_reset_def)

text \<open>
  \<open>check_entry\<close> is called with no position open, and the startup rule is always armed:
  when the trend gate passes, the startup step buys and clears the flag before the filter
  is consulted, so the result does not depend on the flag the call started with; when the
  gate fails, nothing is evaluated at all.
\<close>

lemma check_entry_W2_flag_irrelevant:
  assumes "startup_check s" and "\<not> invested s"
  shows "check_entry_W2 p (s\<lparr>wait_peak_check := w\<rparr>) b True h j t l
       = check_entry_W2 p s b True h j t l"
  using assms by (simp add: check_entry_W2_def buy_W2_def Let_def)

lemma check_entry_W2_no_trend: "check_entry_W2 p s b False h j t l = s"
  by (simp add: check_entry_W2_def)

text \<open>
  Claim C10, as amended.  In Williams2 every SELL placed by \<open>check_exit\<close> sets
  \<open>wait_peak_check\<close> and leaves the reference price and the day count as they were.  A
  filter evaluation that starts waiting without a reference price, on a value that is not
  cheap, takes the already-waiting branch: it blocks and counts the day, or passes and
  ends the wait once the count reaches \<open>max_peak_days\<close>.  Through \<open>check_entry\<close>, however,
  the flag set by a SELL never reaches the filter: with the startup rule armed, as it is
  in every run, the outcome of \<open>check_entry\<close> is the same whatever the flag was.
\<close>

theorem exit_sets_wait_flag:
  "(orders (check_exit_W2 p s b j t l) \<noteq> orders s \<longrightarrow>
      wait_peak_check (check_exit_W2 p s b j t l)
      \<and> peak_day_hl2 (check_exit_W2 p s b j t l) = peak_day_hl2 s
      \<and> peak_check_days (check_exit_W2 p s b j t l) = peak_check_days s
      \<and> (\<exists>r. orders (check_exit_W2 p s b j t l) = orders s @ [SELL r]))
   \<and> (use_entry_price_filter p \<and> price_filter_lookback p \<le> int (length (hl2s s))
      \<and> wait_peak_check s \<and> peak_day_hl2 s = None
      \<and> slice_last (price_filter_lookback p) (hl2s s) \<noteq> []
      \<and> np_std (slice_last (price_filter_lookback p) (hl2s s)) \<noteq> 0
      \<and> \<not> zscore (slice_last (price_filter_lookback p) (hl2s s)) h < - price_filter_k p
    \<longrightarrow> entry_price_filter p s h
        = (if max_peak_days p \<le> peak_check_days s + 1
           then (True, s\<lparr>peak_check_days := 0, wait_peak_check := False\<rparr>)
           else (False, s\<lparr>peak_check_days := peak_check_days s + 1\<rparr>)))
   \<and> (startup_check s \<and> \<not> invested s \<longrightarrow>
        check_entry_W2 p (s\<lparr>wait_peak_check := w\<rparr>) b True h j t l
          = check_entry_W2 p s b True h j t l)
   \<and> check_entry_W2 p s b False h j t l = s"
  using check_exit_W2_sell_flag[of p s b j t l] filter_waiting_no_ref[of p s h]
    check_entry_W2_flag_irrelevant[of s p w b h j t l] check_entry_W2_no_trend[of p s b h j t l]
  by blast

text \<open>
  The witness: the open position of the run on the history of twenty bars at 100 is
  stopped out by the close of 109 on bar 24; the state after that SELL, with the price of bar 25 added (the last 20 prices have
  mean 101 and variance 166.1), waits without a reference price, and the filter, asked
  directly about the neutral value 106, blocks and counts one day; \<open>check_entry\<close> in that
  state does the same with the flag set or not.
\<close>

lemma st_seen_eval:
  "hl2s st_seen = replicate 20 100 @ [140, 105, 60, 109, 106]"
  "wait_peak_check st_seen" "peak_day_hl2 st_seen = None" "peak_check_days st_seen = 0"
  "startup_check st_seen" "\<not> invested st_seen"
  by (simp_all add: st_seen_def st_sold_def update_indicators_W2_def min_len_def
      params_W2_def bar_of_def Let_def)

theorem exit_sets_wait_flag_witness:
  "run_full_W2 params_W2 (Initialize_full_W2 params_W2 hist100)
     (flat20 @ [bar_of 140 140, bar_of 105 105, bar_of 60 60]) = Inr in_open
   \<and> core in_open = st_open
   \<and> orders (check_exit_W2 params_W2 st_open (bar_of 109 109)
       (803923 / 8000) (521573 / 5184) (6437 / 64)) \<noteq> orders st_open
   \<and> wait_peak_check (check_exit_W2 params_W2 st_open (bar_of 109 109)
       (803923 / 8000) (521573 / 5184) (6437 / 64))
   \<and> peak_day_hl2 (check_exit_W2 params_W2 st_open (bar_of 109 109)
       (803923 / 8000) (521573 / 5184) (6437 / 64)) = peak_day_hl2 st_open
   \<and> use_entry_price_filter params_W2
   \<and> price_filter_lookback params_W2 \<le> int (length (hl2s st_seen))
   \<and> wait_peak_check st_seen \<and> peak_day_hl2 st_seen = None
   \<and> slice_last (price_filter_lookback params_W2) (hl2s st_seen) \<noteq> []
   \<and> np_std (slice_last (price_filter_lookback params_W2) (hl2s st_seen)) \<noteq> 0
   \<and> \<not> zscore (slice_last (price_filter_lookback params_W2) (hl2s st_seen)) 106
         < - price_filter_k params_W2
   \<and> entry_price_filter params_W2 st_seen 106
       = (False, st_seen\<lparr>peak_check_days := peak_check_days st_seen + 1\<rparr>)
   \<and> startup_check st_seen \<and> \<not> invested st_seen
   \<and> check_entry_W2 params_W2 (st_seen\<lparr>wait_peak_check := False\<rparr>)
        (bar_of 106 106) True 106 (16122537 / 160000) (6286807 / 62208) (51843 / 512)
       = check_entry_W2 params_W2 st_seen
        (bar_of 106 106) True 106 (16122537 / 160000) (6286807 / 62208) (51843 / 512)"
proof -
  let ?b = "bar_of 109 109"
  let ?j = "803923 / 8000 :: real"
  let ?t = "521573 / 5184 :: real"
  let ?l = "6437 / 64 :: real"
  have h1: "orders (check_exit_W2 params_W2 st_open ?b ?j ?t ?l) \<noteq> orders st_open"
    by (simp add: st_open_def check_exit_W2_def sell_W2_def new_high_def params_W2_def
        bar_of_def Let_def)
  note T1 = exit_sets_wait_flag[of params_W2 st_open ?b ?j ?t ?l]
  have a1: "wait_peak_check (check_exit_W2 params_W2 st_open ?b ?j ?t ?l)"
    using h1 T1 by blast
  have a2: "peak_day_hl2 (check_exit_W2 params_W2 st_open ?b ?j ?t ?l)
      = peak_day_hl2 st_open"
    using h1 T1 by blast
  have w: "slice_last (price_filter_lookback params_W2) (hl2s st_seen) = window25"
    using window25_slice by (simp add: params_W2_def st_seen_eval(1))
  have ne: "window25 \<noteq> []" by (simp add: window25_def)
  have nz: "\<not> zscore window25 106 < - price_filter_k params_W2"
    using window25_stats(4) by (simp add: params_W2_def)
  have h2: "use_entry_price_filter params_W2"
    "price_filter_lookback params_W2 \<le> int (length (hl2s st_seen))"
    "wait_peak_check st_seen" "peak_day_hl2 st_seen = None"
    "slice_last (price_filter_lookback params_W2) (hl2s st_seen) \<noteq> []"
    "np_std (slice_last (price_filter_lookback params_W2) (hl2s st_seen)) \<noteq> 0"
    "\<not> zscore (slice_last (price_filter_lookback params_W2) (hl2s st_seen)) 106
         < - price_filter_k params_W2"
    unfolding w using ne nz window25_stats(3) st_seen_eval(2,3)
    by (simp_all add: params_W2_def st_seen_eval(1))
  have md: "\<not> max_peak_days params_W2 \<le> peak_check_days st_seen + 1"
    by (simp add: params_W2_def st_seen_eval(4))
  have b: "entry_price_filter params_W2 st_seen 106
       = (False, st_seen\<lparr>peak_check_days := peak_check_days st_seen + 1\<rparr>)"
    using h2 md exit_sets_wait_flag[of params_W2 st_seen _ _ _ _ 106]
    by (simp only: if_False) blast
  have h3: "startup_check st_seen" "\<not> invested st_seen"
    by (rule st_seen_eval(5), rule st_seen_eval(6))
  have c: "check_entry_W2 params_W2 (st_seen\<lparr>wait_peak_check := False\<rparr>)
        (bar_of 106 106) True 106 (16122537 / 160000) (6286807 / 62208) (51843 / 512)
       = check_entry_W2 params_W2 st_seen
        (bar_of 106 106) True 106 (16122537 / 160000) (6286807 / 62208) (51843 / 512)"
    using h3 exit_sets_wait_flag[of params_W2 st_seen
        "bar_of 106 106" "16122537 / 160000" "6286807 / 62208" "51843 / 512" 106 False]
    by blast
  from reach_open core_in(2) h1 a1 a2 h2 b h3 c show ?thesis by blast
qed

text \<open>
  Claim C10 as stated fails in its conclusion.  In the run from \<open>Initialize\<close> on a history
  of twenty bars at 100 the position bought on bar 21 is stopped out on bar 24, which
  sets the flag with no reference price.  On bar 25, at 106, the trend gate passes and
  the lips cross above the teeth, and the entry is not blocked: the startup rule buys and
  clears the flag, the filter then sees a neutral value in a state that is not waiting,
  and the cross entry buys as well; the day count is never touched.
\<close>

theorem exit_wait_not_consulted_counterexample:
  "run_full_W2 params_W2 (Initialize_full_W2 params_W2 hist100)
     (flat20 @ [bar_of 140 140, bar_of 105 105, bar_of 60 60, bar_of 109 109]) = Inr in_sold
   \<and> wait_peak_check (core in_sold) \<and> peak_day_hl2 (core in_sold) = None
   \<and> \<not> invested (core in_sold)
   \<and> orders (core in_sold) = [BUY Startup_trending, SELL Trailing_stop]
   \<and> run_full_W2 params_W2 (Initialize_full_W2 params_W2 hist100)
     (flat20 @ [bar_of 140 140, bar_of 105 105, bar_of 60 60, bar_of 109 109, bar_of 106 106])
     = Inr in_crossed
   \<and> orders (core in_crossed)
       = [BUY Startup_trending, SELL Trailing_stop, BUY Startup_trending, BUY Cross_filter]
   \<and> \<not> wait_peak_check (core in_crossed) \<and> peak_check_days (core in_crossed) = 0"
proof -
  have f: "wait_peak_check (core in_sold)" "peak_day_hl2 (core in_sold) = None"
    "\<not> invested (core in_sold)"
    "orders (core in_sold) = [BUY Startup_trending, SELL Trailing_stop]"
    by (simp_all add: core_in st_sold_def)
  have g: "orders (core in_crossed)
       = [BUY Startup_trending, SELL Trailing_stop, BUY Startup_trending, BUY Cross_filter]"
    "\<not> wait_peak_check (core in_crossed)" "peak_check_days (core in_crossed) = 0"
    by (simp_all add: core_in st_crossed_def)
  from reach_sold f reach_crossed g show ?thesis by blast
qed

section \<open>Properties of the Hurst exponent\<close>

text \<open>The fit is reached with at least two points, so \<open>polyfit\<close> cannot raise.\<close>

lemma hurst_fit_total: "\<exists>H. hurst_fit ts m = Inr H"
proof (cases "length (masked ts m) < 2")
  case True
  then have "hurst_fit ts m = Inr (1 / 2)" by (simp add: hurst_fit_def)
  then show ?thesis by blast
next
  case False
  then have "masked ts m \<noteq> []" by auto
  then have "hurst_fit ts m
      = Inr (fit_slope (map (\<lambda>(lag, tau). ln (real_of_int lag)) (masked ts m))
                       (map (\<lambda>(lag, tau). ln tau) (masked ts m)))"
    using False by (simp add: hurst_fit_def Let_def polyfit1_def)
  then show ?thesis by blast
qed

lemma hurst_fit_degenerate: "length (masked ts m) < 2 \<Longrightarrow> hurst_fit ts m = Inr (1 / 2)"
  by (simp add: hurst_fit_def)

lemma hurst_W2_short: "length ts < 10 \<Longrightarrow> hurst_exponent_W2 ts ml = Inr (1 / 2)"
  by (simp add: hurst_exponent_W2_def)

text \<open>
  From ten points on, the lag bound after \<open>min(max_lag, n - 2)\<close> always fits, so the
  shrinking branch of the source is never taken.
\<close>

lemma hurst_W2_long:
  assumes "10 \<le> length ts"
  shows "hurst_exponent_W2 ts ml
     = hurst_fit ts (min (case ml of None \<Rightarrow> max 2 (int (length ts) div 2) | Some m \<Rightarrow> m)
                        (int (length ts) - 2))"
proof -
  let ?n = "int (length ts)"
  let ?ml0 = "case ml of None \<Rightarrow> max 2 (?n div 2) | Some m \<Rightarrow> m"
  have "\<not> ?n < min ?ml0 (?n - 2) + 2" by simp
  moreover have "\<not> ?n < 10" using assms by simp
  ultimately show ?thesis
    unfolding hurst_exponent_W2_def Let_def by (simp only: if_False)
qed

lemma hurst_W2_total: "\<exists>H. hurst_exponent_W2 ts ml = Inr H"
proof (cases "length ts < 10")
  case True
  then have "hurst_exponent_W2 ts ml = Inr (1 / 2)" by (rule hurst_W2_short)
  then show ?thesis by blast
next
  case False
  then have "10 \<le> length ts" by simp
  from hurst_W2_long[OF this] hurst_fit_total show ?thesis by simp
qed

text \<open>A constant series: every lagged difference is zero, so no lag survives the mask.\<close>

lemma lag_diff_const: "lag_diff (replicate n c) lag = replicate (n - lag) 0"
  by (simp add: lag_diff_def zip_replicate map_replicate_const)

lemma np_std_zeros: "np_std (replicate k 0) = 0"
  by (simp add: np_std_def np_mean_def sum_list_replicate)

lemma tau_const: "tau_of (replicate n c) lag = 0"
  by (simp add: tau_of_def lag_diff_const np_std_zeros)

lemma masked_const: "masked (replicate n c) m = []"
  by (simp add: masked_def tau_const filter_empty_conv)

lemma hurst_W2_const: "hurst_exponent_W2 (replicate n c) ml = Inr (1 / 2)"
proof (cases "n < 10")
  case True
  then show ?thesis by (simp add: hurst_W2_short)
next
  case False
  then show ?thesis
    by (simp add: hurst_W2_long hurst_fit_def masked_const)
qed

lemma is_trending_W2_eq:
  "hurst_exponent_W2 ts None = Inr H \<Longrightarrow> is_trending_W2 ts thr = Inr (thr < H)"
  by (simp add: is_trending_W2_def)

lemma hurst_WA_short:
  "int (length ts) < (case ml of None \<Rightarrow> max 2 (int (length ts) div 2) | Some m \<Rightarrow> m) + 2
     \<Longrightarrow> hurst_exponent_WA ts ml = Raised ValueError"
  by (simp add: hurst_exponent_WA_def Let_def)

text \<open>
  Claim C6, as amended.  The \<open>hurst_exponent\<close> of Williams2 returns a value for every
  series and every lag bound and never raises; it returns the neutral 0.5 for a series
  shorter than 10, whenever fewer than two lags have a positive \<open>tau\<close>, and in particular
  for every constant series; the trend decision is \<open>H > threshold\<close>.  The older copy in
  WilliamsAlligator has no neutral value: it raises \<open>ValueError\<close> when the series has
  fewer than \<open>max_lag + 2\<close> points.
\<close>

theorem hurst_neutral_fallback:
  "(\<exists>H. hurst_exponent_W2 ts ml = Inr H)
   \<and> (length ts < 10 \<longrightarrow> hurst_exponent_W2 ts ml = Inr (1 / 2))
   \<and> (10 \<le> length ts
        \<and> length (masked ts (min (case ml of None \<Rightarrow> max 2 (int (length ts) div 2)
                                           | Some m \<Rightarrow> m) (int (length ts) - 2))) < 2
      \<longrightarrow> hurst_exponent_W2 ts ml = Inr (1 / 2))
   \<and> hurst_exponent_W2 (replicate n c) ml = Inr (1 / 2)
   \<and> (hurst_exponent_W2 ts None = Inr H' \<longrightarrow> is_trending_W2 ts thr = Inr (thr < H'))
   \<and> (int (length ts) < (case ml of None \<Rightarrow> max 2 (int (length ts) div 2) | Some m \<Rightarrow> m) + 2
      \<longrightarrow> hurst_exponent_WA ts ml = Raised ValueError)"
proof (intro conjI impI)
  show "\<exists>H. hurst_exponent_W2 ts ml = Inr H" by (rule hurst_W2_total)
next
  assume "length ts < 10"
  then show "hurst_exponent_W2 ts ml = Inr (1 / 2)" by (rule hurst_W2_short)
next
  assume a: "10 \<le> length ts
        \<and> length (masked ts (min (case ml of None \<Rightarrow> max 2 (int (length ts) div 2)
                                           | Some m \<Rightarrow> m) (int (length ts) - 2))) < 2"
  then have "10 \<le> length ts" by simp
  from hurst_W2_long[OF this, of ml] a show "hurst_exponent_W2 ts ml = Inr (1 / 2)"
    by (simp add: hurst_fit_degenerate)
next
  show "hurst_exponent_W2 (replicate n c) ml = Inr (1 / 2)" by (rule hurst_W2_const)
next
  assume "hurst_exponent_W2 ts None = Inr H'"
  then show "is_trending_W2 ts thr = Inr (thr < H')" by (rule is_trending_W2_eq)
next
  assume "int (length ts)
      < (case ml of None \<Rightarrow> max 2 (int (length ts) div 2) | Some m \<Rightarrow> m) + 2"
  then show "hurst_exponent_WA ts ml = Raised ValueError" by (rule hurst_WA_short)
qed

text \<open>
  The witness: a series of three points, and a series of twelve equal points, which is
  long enough for the fit but leaves no lag with a positive \<open>tau\<close>.
\<close>

theorem hurst_neutral_fallback_witness:
  "length [1, 2, 3 :: real] < 10
   \<and> hurst_exponent_W2 [1, 2, 3] None = Inr (1 / 2)
   \<and> is_trending_W2 [1, 2, 3] (1 / 2) = Inr False
   \<and> 10 \<le> length (replicate 12 (7 :: real))
   \<and> length (masked (replicate 12 7)
        (min (case None of None \<Rightarrow> max 2 (int (length (replicate 12 (7 :: real))) div 2)
                         | Some m \<Rightarrow> m) (int (length (replicate 12 (7 :: real))) - 2))) < 2
   \<and> hurst_exponent_W2 (replicate 12 7) None = Inr (1 / 2)
   \<and> int (length [1, 2, 3 :: real])
       < (case None of None \<Rightarrow> max 2 (int (length [1, 2, 3 :: real]) div 2) | Some m \<Rightarrow> m) + 2
   \<and> hurst_exponent_WA [1, 2, 3] None = Raised ValueError"
proof -
  have h: "length [1, 2, 3 :: real] < 10" "10 \<le> length (replicate 12 (7 :: real))"
    "length (masked (replicate 12 7)
        (min (case None of None \<Rightarrow> max 2 (int (length (replicate 12 (7 :: real))) div 2)
                         | Some m \<Rightarrow> m) (int (length (replicate 12 (7 :: real))) - 2))) < 2"
    "int (length [1, 2, 3 :: real])
       < (case None of None \<Rightarrow> max 2 (int (length [1, 2, 3 :: real]) div 2) | Some m \<Rightarrow> m) + 2"
    by (simp_all add: masked_const)
  note T = hurst_neutral_fallback[of "[1, 2, 3]" None 0 0 "1 / 2" "1 / 2"]
  have a: "hurst_exponent_W2 [1, 2, 3] None = Inr (1 / 2)"
    using h(1) T by blast
  have b: "is_trending_W2 [1, 2, 3] (1 / 2) = Inr ((1 / 2 :: real) < 1 / 2)"
    using a T by blast
  have c: "hurst_exponent_W2 (replicate 12 7) None = Inr (1 / 2)"
    using h(2,3) hurst_neutral_fallback[of "replicate 12 7" None 0 0 0 0] by blast
  have d: "hurst_exponent_WA [1, 2, 3] None = Raised ValueError"
    using h(4) T by blast
  from b have b': "is_trending_W2 [1, 2, 3] (1 / 2) = Inr False" by simp
  from h a b' c d show ?thesis by blast
qed

text \<open>
  Claim C6 as stated fails on the copy in WilliamsAlligator: a series of three points
  raises \<open>ValueError\<close>, and one of four points reaches \<open>polyfit\<close> with no lag at all; the
  Williams2 copy returns 0.5 on both.
\<close>

theorem hurst_WA_raises_counterexample:
  "hurst_exponent_WA [1, 2, 3] None = Raised ValueError
   \<and> hurst_exponent_WA [1, 2, 3, 4] None = Raised TypeError
   \<and> hurst_exponent_W2 [1, 2, 3] None = Inr (1 / 2)
   \<and> hurst_exponent_W2 [1, 2, 3, 4] None = Inr (1 / 2)"
  by (simp add: hurst_exponent_WA_def hurst_exponent_W2_def Let_def)

end
